theory Spec2Isabelle
  imports Main
begin

section \<open>Common data\<close>

text \<open>
  Go byte slices and strings are byte sequences: \<open>string\<close> (a list of 8-bit characters).
  A \<open>uuid.UUID\<close> is an array of 16 bytes; \<open>uuid.FromBytes\<close> accepts a slice exactly when
  its length is 16. Wall-clock instants are natural numbers.
\<close>

type_synonym bytes = string
type_synonym uuid = string
type_synonym instant = nat

text \<open>
  A Go \<open>error\<close> value with its message. \<open>Panic\<close> is a run-time panic: it is not
  returned but unwinds through every caller, which the model writes as an error that
  every caller passes on.
\<close>

datatype error = Err string | Panic string

fun Error :: "error \<Rightarrow> string" where
  "Error (Err m) = m"
| "Error (Panic m) = m"

text \<open>\<open>strconv.Itoa\<close>, also the \<open>%d\<close> verb of \<open>fmt\<close>: the decimal rendering of an integer.\<close>

definition digitChar :: "nat \<Rightarrow> char" where
  "digitChar d = ''0123456789'' ! d"

fun showNat :: "nat \<Rightarrow> string" where
  "showNat n = (if n < 10 then [digitChar n] else showNat (n div 10) @ [digitChar (n mod 10)])"

definition Itoa :: "int \<Rightarrow> string" where
  "Itoa v = (if v < 0 then CHR ''-'' # showNat (nat (- v)) else showNat (nat v))"

declare showNat.simps [simp del]

text \<open>The hexadecimal digit of a number below 16, in lower case.\<close>

definition lowerhex :: "nat \<Rightarrow> char" where
  "lowerhex d = ''0123456789abcdef'' ! d"

text \<open>
  \<open>uuid.FromBytes\<close> (github.com/google/uuid): \<open>UnmarshalBinary\<close> copies a slice of 16 bytes
  and answers every other length with \<open>fmt.Errorf("invalid UUID (got %d bytes)", len(data))\<close>.
\<close>

definition FromBytes :: "bytes \<Rightarrow> error + uuid" where
  "FromBytes b = (if length b = 16 then Inr b
                  else Inl (Err (''invalid UUID (got '' @ Itoa (int (length b)) @ '' bytes)'')))"

text \<open>
  \<open>strings.ToUpper\<close> and \<open>strings.ToLower\<close> on ASCII text (continent codes, check kinds
  and record names are ASCII): letters change case, every other byte stays.
\<close>

definition toUpperByte :: "char \<Rightarrow> char" where
  "toUpperByte c =
     (case map_of (zip ''abcdefghijklmnopqrstuvwxyz'' ''ABCDEFGHIJKLMNOPQRSTUVWXYZ'') c of
        Some u \<Rightarrow> u | None \<Rightarrow> c)"

definition ToUpper :: "string \<Rightarrow> string" where
  "ToUpper s = map toUpperByte s"

definition toLowerByte :: "char \<Rightarrow> char" where
  "toLowerByte c =
     (case map_of (zip ''ABCDEFGHIJKLMNOPQRSTUVWXYZ'' ''abcdefghijklmnopqrstuvwxyz'') c of
        Some l \<Rightarrow> l | None \<Rightarrow> c)"

definition ToLower :: "string \<Rightarrow> string" where
  "ToLower s = map toLowerByte s"

section \<open>Geo lookup (package geoip)\<close>

text \<open>
  \<open>GeoInfo\<close> as in the source. The two database readers are the fields of \<open>Geo\<close>; a
  reader that is \<open>nil\<close> is \<open>None\<close>, and a reader maps an address to the record it holds
  (\<open>None\<close> when the library returns an error or a nil record). Of a country record the
  code reads \<open>Country.IsoCode\<close> and \<open>Continent.Code\<close>; of an ASN record the number.
  A \<open>net.IP\<close> is a byte slice, \<open>nil\<close> is \<open>None\<close>.
\<close>

record GeoInfo =
  ASN :: int
  CC :: string
  Continent :: string
  Region :: string

record CountryRecord =
  IsoCode :: string
  ContinentCode :: string

record Geo =
  countryDB :: "(bytes \<Rightarrow> CountryRecord option) option"
  asnDB :: "(bytes \<Rightarrow> nat option) option"

definition EuropeRegion :: string where "EuropeRegion = ''EU''"
definition UnitedStatesRegion :: string where "UnitedStatesRegion = ''US''"
definition APACRegion :: string where "APACRegion = ''APAC''"

definition zeroGeoInfo :: GeoInfo where
  "zeroGeoInfo = \<lparr>ASN = 0, CC = [], Continent = [], Region = []\<rparr>"

definition lookupASN :: "Geo \<Rightarrow> bytes \<Rightarrow> GeoInfo \<Rightarrow> GeoInfo" where
  "lookupASN g ip out =
     (case asnDB g of
        None \<Rightarrow> out
      | Some db \<Rightarrow> (case db ip of None \<Rightarrow> out | Some n \<Rightarrow> out\<lparr>ASN := int n\<rparr>))"

definition lookupCountry :: "Geo \<Rightarrow> bytes \<Rightarrow> GeoInfo \<Rightarrow> GeoInfo" where
  "lookupCountry g ip out =
     (case countryDB g of
        None \<Rightarrow> out
      | Some db \<Rightarrow>
          (case db ip of
             None \<Rightarrow> out
           | Some r \<Rightarrow>
               (if ContinentCode r \<noteq> [] then out\<lparr>CC := IsoCode r, Continent := ContinentCode r\<rparr>
                else out\<lparr>CC := IsoCode r\<rparr>)))"

definition regionOf :: "string \<Rightarrow> string" where
  "regionOf continent =
     (let u = ToUpper continent in
      if u = ''US'' then UnitedStatesRegion
      else if u = ''AS'' \<or> u = ''OC'' then APACRegion
      else EuropeRegion)"

definition Lookup :: "Geo \<Rightarrow> bytes option \<Rightarrow> GeoInfo" where
  "Lookup g ip =
     (case ip of
        None \<Rightarrow> zeroGeoInfo\<lparr>Region := EuropeRegion\<rparr>
      | Some a \<Rightarrow>
          (let out = lookupCountry g a (lookupASN g a zeroGeoInfo)
           in out\<lparr>Region := regionOf (Continent out)\<rparr>))"

text \<open>
  The continent code the country database holds for an address: empty when the address is
  nil, the reader is nil, or the database has no record for it.
\<close>

definition dbContinent :: "Geo \<Rightarrow> bytes option \<Rightarrow> string" where
  "dbContinent g ip =
     (case ip of
        None \<Rightarrow> []
      | Some a \<Rightarrow>
          (case countryDB g of
             None \<Rightarrow> []
           | Some db \<Rightarrow> (case db a of None \<Rightarrow> [] | Some r \<Rightarrow> ContinentCode r)))"

lemma Continent_lookupASN: "Continent (lookupASN g a out) = Continent out"
  by (simp add: lookupASN_def split: option.splits)

lemma Continent_Lookup: "Continent (Lookup g ip) = dbContinent g ip"
  by (cases ip)
     (auto simp: Lookup_def dbContinent_def lookupCountry_def Continent_lookupASN
                 zeroGeoInfo_def Let_def split: option.splits)

lemma Region_Lookup: "Region (Lookup g ip) = regionOf (dbContinent g ip)"
proof (cases ip)
  case None
  then show ?thesis
    by (simp add: Lookup_def dbContinent_def regionOf_def ToUpper_def EuropeRegion_def)
next
  case (Some a)
  have "Continent (Lookup g (Some a)) = dbContinent g (Some a)"
    by (rule Continent_Lookup)
  with Some show ?thesis
    by (simp add: Lookup_def Let_def)
qed

text \<open>
  C10. For every address, \<open>Lookup\<close> answers region APAC exactly when the upper-cased
  continent code of the country database is AS or OC, region US exactly when that code is
  the literal US (so the code NA, which the database uses for North America, gives EU),
  and EU in every other case; for the nil address it answers EU with ASN 0 and an empty
  country code.
\<close>

theorem Lookup_region:
  "(Region (Lookup g ip) = ''APAC'' \<longleftrightarrow>
      ToUpper (dbContinent g ip) = ''AS'' \<or> ToUpper (dbContinent g ip) = ''OC'')
   \<and> (Region (Lookup g ip) = ''US'' \<longleftrightarrow> ToUpper (dbContinent g ip) = ''US'')
   \<and> (ToUpper (dbContinent g ip) \<noteq> ''AS'' \<and> ToUpper (dbContinent g ip) \<noteq> ''OC''
        \<and> ToUpper (dbContinent g ip) \<noteq> ''US'' \<longrightarrow> Region (Lookup g ip) = ''EU'')
   \<and> (ToUpper (dbContinent g ip) = ''NA'' \<longrightarrow> Region (Lookup g ip) = ''EU'')
   \<and> Lookup g None = \<lparr>ASN = 0, CC = [], Continent = [], Region = ''EU''\<rparr>"
proof -
  have r: "Region (Lookup g ip) = regionOf (dbContinent g ip)"
    by (rule Region_Lookup)
  have n: "Lookup g None = \<lparr>ASN = 0, CC = [], Continent = [], Region = ''EU''\<rparr>"
    by (simp add: Lookup_def zeroGeoInfo_def EuropeRegion_def)
  show ?thesis
    unfolding r using n
    by (simp add: regionOf_def Let_def EuropeRegion_def UnitedStatesRegion_def APACRegion_def)
qed

theorem Lookup_region_witness:
  "Region (Lookup \<lparr>countryDB = Some (\<lambda>a. Some \<lparr>IsoCode = ''CA'', ContinentCode = ''NA''\<rparr>),
                    asnDB = None\<rparr> (Some [CHR 0x18, CHR 0x30, CHR 0x00, CHR 0x01])) = ''EU''
   \<and> Region (Lookup \<lparr>countryDB = Some (\<lambda>a. Some \<lparr>IsoCode = ''JP'', ContinentCode = ''AS''\<rparr>),
                    asnDB = None\<rparr> (Some [CHR 0x18, CHR 0x30, CHR 0x00, CHR 0x01])) = ''APAC''"
proof -
  let ?ip = "Some [CHR 0x18, CHR 0x30, CHR 0x00, CHR 0x01]"
  let ?na = "\<lparr>countryDB = Some (\<lambda>a. Some \<lparr>IsoCode = ''CA'', ContinentCode = ''NA''\<rparr>),
              asnDB = None\<rparr>"
  let ?as = "\<lparr>countryDB = Some (\<lambda>a. Some \<lparr>IsoCode = ''JP'', ContinentCode = ''AS''\<rparr>),
              asnDB = None\<rparr>"
  have u1: "ToUpper (dbContinent ?na ?ip) = ''NA''"
    by (simp add: dbContinent_def ToUpper_def toUpperByte_def)
  have u2: "ToUpper (dbContinent ?as ?ip) = ''AS''"
    by (simp add: dbContinent_def ToUpper_def toUpperByte_def)
  from Lookup_region [of ?na ?ip] u1 have a: "Region (Lookup ?na ?ip) = ''EU''"
    by blast
  from Lookup_region [of ?as ?ip] u2 have b: "Region (Lookup ?as ?ip) = ''APAC''"
    by blast
  from a b show ?thesis by blast
qed

section \<open>Persistent state\<close>

text \<open>
  The rows of the tables the pipeline reads and writes, with the columns the code touches.
  A table is the list of its rows in insertion order. \<open>requests.id\<close>,
  \<open>assignments.id\<close>, \<open>check_results.id\<close>, \<open>outbox_messages.id\<close> and
  \<open>inbox_messages.id\<close> are primary keys.
\<close>

record Agent =
  ag_ID :: uuid
  ag_Region :: string
  ag_ASN :: int
  ag_Online :: bool
  ag_UpdatedAt :: instant

record OutboxMessage =
  ob_ID :: uuid
  ob_Topic :: string
  ob_Payload :: bytes
  ob_CreatedAt :: instant
  ob_Sent :: bool
  ob_SentAt :: "instant option"

record InboxMessage =
  ib_ID :: uuid
  ib_Topic :: string
  ib_Payload :: bytes
  ib_CreatedAt :: instant
  ib_Processed :: bool
  ib_ProcessedAt :: "instant option"

record Request =
  rq_ID :: uuid
  rq_Target :: string
  rq_TimeoutSeconds :: int
  rq_Broadcast :: bool
  rq_ClientIP :: string
  rq_UserAgent :: string
  rq_ClientASN :: int
  rq_ClientCC :: string
  rq_ClientRegion :: string
  rq_Status :: string
  rq_ChecksTypes :: "string list"
  rq_RequestJSON :: bytes
  rq_CreatedAt :: instant
  rq_UpdatedAt :: instant

record Assignment =
  as_ID :: uuid
  as_RequestID :: uuid
  as_AgentID :: uuid
  as_AgentRegion :: string
  as_Status :: string
  as_EnqueuedAt :: instant
  as_OutboxID :: uuid

record CheckResult =
  cr_ID :: uuid
  cr_AssignmentId :: uuid
  cr_Type :: string
  cr_Status :: string
  cr_StartedAt :: instant
  cr_FinishedAt :: instant
  cr_Payload :: bytes

record DB =
  requests :: "Request list"
  assignments :: "Assignment list"
  check_results :: "CheckResult list"
  agents :: "Agent list"
  outbox_messages :: "OutboxMessage list"
  inbox_messages :: "InboxMessage list"

text \<open>
  Every statement sent to the database can fail for reasons outside the program (lost
  connection, serialization failure, full disk). \<open>dbop\<close> names the call sites; a fault
  oracle \<open>dbop \<Rightarrow> bool\<close> says which of them fail in the run under study. The index of
  \<open>OpInsertOutbox\<close> and \<open>OpInsertAssignment\<close> is the position of the agent in the
  dispatch loop (0 for the single agent of a request that is not broadcast).
\<close>

datatype dbop =
    OpBegin
  | OpCommit
  | OpInsertRequest
  | OpSelectAgents
  | OpSelectAgentByRegion
  | OpInsertOutbox nat
  | OpInsertAssignment nat
  | OpInsertInbox
  | OpInsertCheckResult
  | OpSelectUnsentBatch
  | OpUpdateAsSent

definition dbError :: error where
  "dbError = Err ''database error''"

fun wrap :: "string \<Rightarrow> error \<Rightarrow> error" where
  "wrap prefix (Err m) = Err (prefix @ '': '' @ m)"
| "wrap prefix (Panic m) = Panic m"

definition emptyDB :: DB where
  "emptyDB = \<lparr>requests = [], assignments = [], check_results = [], agents = [],
               outbox_messages = [], inbox_messages = []\<rparr>"

section \<open>Task messages\<close>

text \<open>
  A decoded JSON value (\<open>interface{}\<close> after \<open>json.Unmarshal\<close>). Numbers are integers:
  status codes, ports, counts and timeouts are, and the passage through \<open>float64\<close> is
  exact for them. An object is a map from keys to values.
\<close>

datatype jvalue =
    JNull
  | JBool bool
  | JNumber int
  | JString string
  | JArray "jvalue list"
  | JObject "(string \<times> jvalue) list"

type_synonym params = "string \<rightharpoonup> jvalue"

text \<open>
  The \<open>Params\<close> of a check are a Go map, which is \<open>nil\<close> (\<open>None\<close>) when the JSON
  has no \<open>params\<close> or a null one. Reading a nil map finds no key; writing to it panics.
\<close>

record CheckRequest =
  Type :: string
  Params :: "params option"

record TaskMessageRequest =
  req_Target :: string
  req_TimeoutSeconds :: int
  req_Broadcast :: bool
  req_Checks :: "CheckRequest list"

record ClientContext =
  cc_IP :: string
  cc_ASN :: int
  cc_Region :: string
  cc_Continent :: string
  cc_UserAgent :: string

record TaskMessage =
  tm_ID :: uuid
  tm_Target :: string
  tm_TimeoutSeconds :: int
  tm_ClientContext :: ClientContext
  tm_Checks :: "CheckRequest list"
  tm_Metadata :: "(string \<times> string) list"

section \<open>Dispatcher (RequestService.CreateRequest)\<close>

text \<open>
  \<open>net.IP.String\<close>, which \<open>CreateRequest\<close> calls on the client address. An empty address
  is written \<open><nil>\<close>; a slice that has neither four nor sixteen bytes as \<open>?\<close> followed by
  its bytes in hexadecimal; an address of four bytes, and one of sixteen bytes that is an
  IPv4 address mapped into IPv6 (\<open>To4\<close>), in dotted decimal; every other address of sixteen
  bytes in colon-hexadecimal notation, its eight groups without leading zeros and the first
  longest run of two or more zero groups written as \<open>::\<close>.
\<close>

definition hexString :: "bytes \<Rightarrow> string" where
  "hexString b = concat (map (\<lambda>c. [lowerhex (of_char c div 16), lowerhex (of_char c mod 16)]) b)"

definition To4 :: "bytes \<Rightarrow> bytes option" where
  "To4 ip =
     (if length ip = 4 then Some ip
      else if length ip = 16 \<and> list_all (\<lambda>c. c = CHR 0x00) (take 10 ip)
              \<and> ip ! 10 = CHR 0xFF \<and> ip ! 11 = CHR 0xFF
        then Some (drop 12 ip)
      else None)"

fun Join :: "string list \<Rightarrow> string \<Rightarrow> string" where
  "Join [] sep = []"
| "Join [x] sep = x"
| "Join (x # y # rest) sep = x @ sep @ Join (y # rest) sep"

definition string4 :: "bytes \<Rightarrow> string" where
  "string4 p4 = Join (map (\<lambda>c. Itoa (int (of_char c))) p4) ''.''"

definition v6u16 :: "bytes \<Rightarrow> nat \<Rightarrow> nat" where
  "v6u16 ip i = of_char (ip ! (2 * i)) * 256 + of_char (ip ! (2 * i + 1))"

definition appendHex :: "nat \<Rightarrow> string" where
  "appendHex x =
     (if 0x1000 \<le> x then [lowerhex (x div 0x1000)] else [])
     @ (if 0x100 \<le> x then [lowerhex (x div 0x100 mod 16)] else [])
     @ (if 0x10 \<le> x then [lowerhex (x div 0x10 mod 16)] else [])
     @ [lowerhex (x mod 16)]"

text \<open>
  The loop that looks for the zero groups: for every start \<open>i\<close> the end \<open>j\<close> of the run of
  zero groups from \<open>i\<close> on; a run of at least two groups, longer than the one found so far,
  replaces it. \<open>(255, 255)\<close> stands for no run.
\<close>

definition zeroRun :: "nat list \<Rightarrow> nat \<times> nat" where
  "zeroRun groups =
     foldl (\<lambda>(zeroStart, zeroEnd) i.
              (let j = i + length (takeWhile (\<lambda>g. g = 0) (drop i groups))
               in if 2 \<le> j - i \<and> zeroEnd - zeroStart < j - i then (i, j)
                  else (zeroStart, zeroEnd)))
           (255, 255) [0..<8]"

definition string6 :: "bytes \<Rightarrow> string" where
  "string6 ip =
     (let groups = map (v6u16 ip) [0..<8];
          (zeroStart, zeroEnd) = zeroRun groups
      in if zeroStart = 255 then Join (map appendHex groups) '':''
         else Join (map appendHex (take zeroStart groups)) '':'' @ ''::''
              @ Join (map appendHex (drop zeroEnd groups)) '':'')"

definition IPString :: "bytes option \<Rightarrow> string" where
  "IPString ip =
     (case ip of
        None \<Rightarrow> ''<nil>''
      | Some a \<Rightarrow>
          (if a = [] then ''<nil>''
           else if length a \<noteq> 4 \<and> length a \<noteq> 16 then ''?'' @ hexString a
           else (case To4 a of Some p4 \<Rightarrow> string4 p4 | None \<Rightarrow> string6 a)))"

text \<open>
  The table of the requests, as migration 000007 creates it:

  \<^verbatim>\<open>id UUID PRIMARY KEY, target TEXT NOT NULL, timeout_seconds INTEGER NOT NULL,\<close>
  \<^verbatim>\<open>broadcast BOOLEAN NOT NULL DEFAULT FALSE, client_ip INET, user_agent TEXT,\<close>
  \<^verbatim>\<open>client_asn INTEGER, client_cc CHAR(2), client_region TEXT,\<close>
  \<^verbatim>\<open>status domain.check_status NOT NULL DEFAULT 'PENDING', checks_types TEXT[] NOT NULL,\<close>
  \<^verbatim>\<open>request_json JSONB NOT NULL, created_at TIMESTAMPTZ NOT NULL DEFAULT NOW(),\<close>
  \<^verbatim>\<open>updated_at TIMESTAMPTZ NOT NULL DEFAULT NOW()\<close>

  What the column types do with the values of the Go struct \<open>model.Request\<close>:

  \<^item> \<open>INTEGER\<close> holds 32 bits, the Go \<open>int\<close> of \<open>TimeoutSeconds\<close> and \<open>ClientASN\<close> 64: a
    value outside the 32-bit range is refused.
  \<^item> \<open>INET\<close>: \<open>ClientIP\<close> is a Go string, sent as text and read by the input function of
    the type, which takes a host address in dotted-decimal or colon-hexadecimal notation
    with an optional \<open>/\<close> and mask length, hence text of hexadecimal digits, dots, colons
    and a slash. Of the texts \<open>net.IP.String\<close> produces it takes the dotted and the colon
    form and refuses \<open><nil>\<close> and the \<open>?\<close> form; \<open>inetInput\<close> decides these texts as
    PostgreSQL does. The row keeps the address as the text that was inserted.
  \<^item> \<open>CHAR(2)\<close>: a text of more than two characters is refused unless the excess is
    spaces; a shorter one is stored padded with spaces. Country codes are ASCII, one byte
    a character.
  \<^item> \<open>TEXT\<close> and \<open>TEXT[]\<close>: a text with a zero byte is refused.

  A refusal is an error of the insert. The message texts of the driver and of the server
  are abbreviated. Whether a text is valid in the encoding of the database, and whether
  the JSON text that \<open>json.Marshal\<close> returned is one \<open>JSONB\<close> takes, depends on what is
  outside the sources; such a refusal is a fault of \<open>OpInsertRequest\<close>.
\<close>

definition inInt32 :: "int \<Rightarrow> bool" where
  "inInt32 v \<longleftrightarrow> - (2 ^ 31) \<le> v \<and> v < 2 ^ 31"

definition inetChars :: "char set" where
  "inetChars = set ''0123456789abcdefABCDEF.:/''"

definition inetInput :: "string \<Rightarrow> bool" where
  "inetInput t \<longleftrightarrow> t \<noteq> [] \<and> list_all (\<lambda>c. c \<in> inetChars) t"

definition bpcharFits :: "nat \<Rightarrow> string \<Rightarrow> bool" where
  "bpcharFits n t \<longleftrightarrow> list_all (\<lambda>c. c = CHR '' '') (drop n t)"

definition bpchar :: "nat \<Rightarrow> string \<Rightarrow> string" where
  "bpchar n t = take n (t @ replicate n (CHR '' ''))"

definition textInput :: "string \<Rightarrow> bool" where
  "textInput t \<longleftrightarrow> list_all (\<lambda>c. c \<noteq> CHR 0x00) t"

text \<open>
  The repository calls of the dispatch transaction. \<open>InsertRequest\<close> sends the eleven
  columns of its statement and scans \<open>RETURNING status, created_at, updated_at\<close>, the
  defaults of the table, into the struct: it returns the struct with these three fields
  set, while the row holds the country code as \<open>CHAR(2)\<close> stores it.
  \<open>OutboxRepository.InsertMessage\<close> is \<open>ON CONFLICT DO NOTHING\<close>; the inserts of
  requests and assignments are rejected on a taken primary key, the one of assignments
  also when its request does not exist (foreign key). \<open>SelectAgentByRegion\<close> scans the
  first matching row and fails with no rows.
\<close>

definition InsertRequest ::
  "(dbop \<Rightarrow> bool) \<Rightarrow> instant \<Rightarrow> DB \<Rightarrow> Request \<Rightarrow> error + (DB \<times> Request)" where
  "InsertRequest fails now tx request =
     (if fails OpInsertRequest then Inl dbError
      else if inInt32 (rq_TimeoutSeconds request) \<and> inInt32 (rq_ClientASN request) then
        (if inetInput (rq_ClientIP request) then
           (if bpcharFits 2 (rq_ClientCC request) then
              (if list_all textInput ([rq_Target request, rq_UserAgent request,
                                       rq_ClientRegion request] @ rq_ChecksTypes request) then
                 (if rq_ID request \<in> set (map rq_ID (requests tx))
                  then Inl (Err ''duplicate key value violates unique constraint'')
                  else (let returned = request\<lparr>rq_Status := ''PENDING'', rq_CreatedAt := now,
                                                 rq_UpdatedAt := now\<rparr>
                        in Inr (tx\<lparr>requests := requests tx
                                     @ [returned\<lparr>rq_ClientCC := bpchar 2 (rq_ClientCC request)\<rparr>]\<rparr>,
                                returned)))
               else Inl (Err ''invalid byte sequence for encoding''))
            else Inl (Err ''value too long for type character(2)''))
         else Inl (Err (''invalid input syntax for type inet: '' @ rq_ClientIP request)))
      else Inl (Err ''integer out of range''))"

definition SelectAgents :: "(dbop \<Rightarrow> bool) \<Rightarrow> DB \<Rightarrow> error + Agent list" where
  "SelectAgents fails tx = (if fails OpSelectAgents then Inl dbError else Inr (agents tx))"

definition SelectAgentByRegion :: "(dbop \<Rightarrow> bool) \<Rightarrow> DB \<Rightarrow> string \<Rightarrow> error + Agent" where
  "SelectAgentByRegion fails tx region =
     (if fails OpSelectAgentByRegion then Inl dbError
      else (case filter (\<lambda>a. ag_Region a = region) (agents tx) of
              [] \<Rightarrow> Inl (Err ''no rows in result set'')
            | a # _ \<Rightarrow> Inr a))"

definition OutboxInsertMessage ::
  "(dbop \<Rightarrow> bool) \<Rightarrow> instant \<Rightarrow> nat \<Rightarrow> DB \<Rightarrow> OutboxMessage \<Rightarrow> error + DB" where
  "OutboxInsertMessage fails now i tx message =
     (if fails (OpInsertOutbox i) then Inl dbError
      else if ob_ID message \<in> set (map ob_ID (outbox_messages tx)) then Inr tx
      else Inr (tx\<lparr>outbox_messages := outbox_messages tx @
                  [\<lparr>ob_ID = ob_ID message, ob_Topic = ob_Topic message,
                    ob_Payload = ob_Payload message, ob_CreatedAt = now,
                    ob_Sent = False, ob_SentAt = None\<rparr>]\<rparr>))"

definition InsertAssignment ::
  "(dbop \<Rightarrow> bool) \<Rightarrow> instant \<Rightarrow> nat \<Rightarrow> DB \<Rightarrow> Assignment \<Rightarrow> error + DB" where
  "InsertAssignment fails now i tx assignment =
     (if fails (OpInsertAssignment i) then Inl dbError
      else if as_ID assignment \<in> set (map as_ID (assignments tx))
        then Inl (Err ''duplicate key value violates unique constraint'')
      else if as_RequestID assignment \<notin> set (map rq_ID (requests tx))
        then Inl (Err ''insert violates foreign key constraint'')
      else Inr (tx\<lparr>assignments := assignments tx @
                  [\<lparr>as_ID = as_ID assignment, as_RequestID = as_RequestID assignment,
                    as_AgentID = as_AgentID assignment,
                    as_AgentRegion = as_AgentRegion assignment,
                    as_Status = ''PENDING'', as_EnqueuedAt = now,
                    as_OutboxID = as_OutboxID assignment\<rparr>]\<rparr>))"

text \<open>
  The service's surroundings: the geo database, the fault oracle, the UUIDs that
  \<open>uuid.New\<close> returns (the k-th call of one \<open>CreateRequest\<close> gets \<open>rs_newUUID k\<close>), the
  clock and \<open>json.Marshal\<close> of the task message.
\<close>

record RequestService =
  geo :: Geo
  rs_fails :: "dbop \<Rightarrow> bool"
  rs_newUUID :: "nat \<Rightarrow> uuid"
  rs_now :: instant
  marshalTask :: "TaskMessage \<Rightarrow> error + bytes"

definition baseProduceTopic :: string where
  "baseProduceTopic = ''hosts-check''"

definition topicFor :: "string \<Rightarrow> string" where
  "topicFor region = baseProduceTopic @ ''-'' @ region"

definition taskMessageOf ::
  "RequestService \<Rightarrow> TaskMessageRequest \<Rightarrow> bytes option \<Rightarrow> string \<Rightarrow> TaskMessage" where
  "taskMessageOf s req ip ua =
     (let gi = Lookup (geo s) ip
      in \<lparr>tm_ID = rs_newUUID s 0, tm_Target = req_Target req,
          tm_TimeoutSeconds = req_TimeoutSeconds req,
          tm_ClientContext = \<lparr>cc_IP = IPString ip, cc_ASN = ASN gi, cc_Region = Region gi,
                               cc_Continent = Continent gi, cc_UserAgent = ua\<rparr>,
          tm_Checks = map (\<lambda>check. \<lparr>Type = Type check, Params = Params check\<rparr>) (req_Checks req),
          tm_Metadata = [(''origin'', ''api''), (''region'', Region gi)]\<rparr>)"

definition requestOf ::
  "RequestService \<Rightarrow> TaskMessageRequest \<Rightarrow> bytes option \<Rightarrow> string \<Rightarrow> bytes \<Rightarrow> Request" where
  "requestOf s req ip ua payload =
     (let gi = Lookup (geo s) ip
      in \<lparr>rq_ID = rs_newUUID s 0, rq_Target = req_Target req,
          rq_TimeoutSeconds = req_TimeoutSeconds req, rq_Broadcast = req_Broadcast req,
          rq_ClientIP = IPString ip, rq_UserAgent = ua, rq_ClientASN = ASN gi,
          rq_ClientCC = CC gi, rq_ClientRegion = Region gi, rq_Status = [],
          rq_ChecksTypes = map Type (req_Checks req), rq_RequestJSON = payload,
          rq_CreatedAt = 0, rq_UpdatedAt = 0\<rparr>)"

text \<open>
  The body of the loop over the agents (and of the single-agent branch): one outbox row
  and one assignment for the agent at position \<open>i\<close>, the outbox topic built from
  \<open>region\<close>. The UUIDs are the calls \<open>2i+1\<close> and \<open>2i+2\<close> of \<open>uuid.New\<close>.
\<close>

definition dispatchOne ::
  "RequestService \<Rightarrow> bytes \<Rightarrow> nat \<Rightarrow> string \<Rightarrow> Agent \<Rightarrow> DB \<Rightarrow> error + DB" where
  "dispatchOne s payload i region agent tx =
     (let outboxID = rs_newUUID s (2 * i + 1);
          outboxMessage = \<lparr>ob_ID = outboxID, ob_Topic = topicFor region, ob_Payload = payload,
                            ob_CreatedAt = 0, ob_Sent = False, ob_SentAt = None\<rparr>;
          assignment = \<lparr>as_ID = rs_newUUID s (2 * i + 2), as_RequestID = rs_newUUID s 0,
                         as_AgentID = ag_ID agent, as_AgentRegion = ag_Region agent,
                         as_Status = [], as_EnqueuedAt = 0, as_OutboxID = outboxID\<rparr>
      in case OutboxInsertMessage (rs_fails s) (rs_now s) i tx outboxMessage of
           Inl e \<Rightarrow> Inl (wrap ''failed to insert outbox message'' e)
         | Inr tx1 \<Rightarrow>
             (case InsertAssignment (rs_fails s) (rs_now s) i tx1 assignment of
                Inl e \<Rightarrow> Inl (wrap ''failed to insert assignment'' e)
              | Inr tx2 \<Rightarrow> Inr tx2))"

fun dispatchAll :: "RequestService \<Rightarrow> bytes \<Rightarrow> nat \<Rightarrow> Agent list \<Rightarrow> DB \<Rightarrow> error + DB" where
  "dispatchAll s payload i [] tx = Inr tx"
| "dispatchAll s payload i (agent # rest) tx =
     (case dispatchOne s payload i (ag_Region agent) agent tx of
        Inl e \<Rightarrow> Inl e
      | Inr tx' \<Rightarrow> dispatchAll s payload (Suc i) rest tx')"

text \<open>
  The transaction, on the working copy \<open>tx\<close>. The source writes the broadcast branch and
  the single-agent branch as two blocks that both begin, insert the request, select,
  insert and commit; here the common steps stand once. The caller installs the result
  only when this and the commit succeed; every error return runs the deferred rollback.
\<close>

definition dispatchTx ::
  "RequestService \<Rightarrow> TaskMessageRequest \<Rightarrow> bytes option \<Rightarrow> bytes \<Rightarrow> Request \<Rightarrow> DB
   \<Rightarrow> error + (DB \<times> Request)" where
  "dispatchTx s req ip payload request tx =
     (case InsertRequest (rs_fails s) (rs_now s) tx request of
        Inl e \<Rightarrow> Inl (wrap ''failed to insert request'' e)
      | Inr (tx1, stored) \<Rightarrow>
          (if req_Broadcast req then
             (case SelectAgents (rs_fails s) tx1 of
                Inl e \<Rightarrow> Inl (wrap ''failed to select agents'' e)
              | Inr allAgents \<Rightarrow>
                  (case dispatchAll s payload 0 allAgents tx1 of
                     Inl e \<Rightarrow> Inl e
                   | Inr tx2 \<Rightarrow> Inr (tx2, stored)))
           else
             (case SelectAgentByRegion (rs_fails s) tx1 (Region (Lookup (geo s) ip)) of
                Inl e \<Rightarrow> Inl (wrap ''failed to select agent'' e)
              | Inr agent \<Rightarrow>
                  (case dispatchOne s payload 0 (Region (Lookup (geo s) ip)) agent tx1 of
                     Inl e \<Rightarrow> Inl e
                   | Inr tx2 \<Rightarrow> Inr (tx2, stored)))))"

definition CreateRequest ::
  "RequestService \<Rightarrow> DB \<Rightarrow> TaskMessageRequest \<Rightarrow> bytes option \<Rightarrow> string
   \<Rightarrow> (error + Request) \<times> DB" where
  "CreateRequest s db req ip ua =
     (case marshalTask s (taskMessageOf s req ip ua) of
        Inl e \<Rightarrow> (Inl (wrap ''failed to marshal task message'' e), db)
      | Inr payload \<Rightarrow>
          (if rs_fails s OpBegin then (Inl (wrap ''failed to begin transaction'' dbError), db)
           else (case dispatchTx s req ip payload (requestOf s req ip ua payload) db of
                   Inl e \<Rightarrow> (Inl e, db)
                 | Inr (tx, stored) \<Rightarrow>
                     (if rs_fails s OpCommit
                      then (Inl (wrap ''error committing transaction'' dbError), db)
                      else (Inr stored, tx)))))"



















text \<open>
  A concrete deployment for the examples: the three seeded agents, a service whose
  database calls succeed and whose country database has no record, a request with one
  HTTP check, and the client address 203.0.113.57 in the sixteen-byte form that
  \<open>net.ParseIP\<close> returns. \<open>examplePayload\<close> is the JSON text of the task of that request.
\<close>

definition exampleIP :: bytes where
  "exampleIP = [CHR 0x00, CHR 0x00, CHR 0x00, CHR 0x00, CHR 0x00, CHR 0x00, CHR 0x00, CHR 0x00,
                CHR 0x00, CHR 0x00, CHR 0xFF, CHR 0xFF, CHR 0xCB, CHR 0x00, CHR 0x71, CHR 0x39]"

definition examplePayload :: bytes where
  \<open>examplePayload =
     ''{"id":"30303030-3030-3030-3030-303030307230","target":"example.com",''
     @ ''"timeoutSeconds":20,"clientContext":{"ip":"203.0.113.57","geo":{"region":"EU"},''
     @ ''"userAgent":"curl"},"checks":[{"type":"http","params":{}}],''
     @ ''"metadata":{"origin":"api","region":"EU"}}''\<close>

definition exampleUUIDs :: "nat \<Rightarrow> uuid" where
  "exampleUUIDs k = [''00000000000000r0'', ''00000000000000o1'', ''00000000000000a1'',
                     ''00000000000000o2'', ''00000000000000a2'', ''00000000000000o3'',
                     ''00000000000000a3''] ! k"

definition exampleService :: RequestService where
  "exampleService =
     \<lparr>geo = \<lparr>countryDB = Some (\<lambda>a. None), asnDB = None\<rparr>,
      rs_fails = (\<lambda>op. False), rs_newUUID = exampleUUIDs, rs_now = 100,
      marshalTask = (\<lambda>t. Inr examplePayload)\<rparr>"

definition exampleDB :: DB where
  "exampleDB = emptyDB\<lparr>agents :=
     [\<lparr>ag_ID = ''agent-0000000-EU'', ag_Region = ''EU'', ag_ASN = 1, ag_Online = True, ag_UpdatedAt = 0\<rparr>,
      \<lparr>ag_ID = ''agent-0000000-US'', ag_Region = ''US'', ag_ASN = 2, ag_Online = True, ag_UpdatedAt = 0\<rparr>,
      \<lparr>ag_ID = ''agent-00000-APAC'', ag_Region = ''APAC'', ag_ASN = 3, ag_Online = True, ag_UpdatedAt = 0\<rparr>]\<rparr>"

definition exampleRequest :: "bool \<Rightarrow> TaskMessageRequest" where
  "exampleRequest b = \<lparr>req_Target = ''example.com'', req_TimeoutSeconds = 20, req_Broadcast = b,
                        req_Checks = [\<lparr>Type = ''http'', Params = Some Map.empty\<rparr>]\<rparr>"

lemmas dispatch_defs =
  CreateRequest_def dispatchTx_def dispatchOne_def InsertRequest_def SelectAgents_def
  SelectAgentByRegion_def OutboxInsertMessage_def InsertAssignment_def requestOf_def
  taskMessageOf_def topicFor_def baseProduceTopic_def  dbError_def

lemmas example_defs = exampleService_def exampleDB_def exampleRequest_def exampleUUIDs_def emptyDB_def

lemma IPString_exampleIP: "IPString (Some exampleIP) = ''203.0.113.57''"
  by (simp add: IPString_def exampleIP_def To4_def string4_def Itoa_def showNat.simps digitChar_def)

lemma inetInput_exampleIP: "inetInput ''203.0.113.57''"
  by (simp add: inetInput_def inetChars_def)

lemmas column_defs = inInt32_def bpcharFits_def bpchar_def textInput_def


lemma isl_neq_Inr: "isl x \<Longrightarrow> x \<noteq> Inr y"
  by (cases x) simp_all

lemma dispatchOne_fault:
  "rs_fails s (OpInsertOutbox i) \<or> rs_fails s (OpInsertAssignment i) \<Longrightarrow>
   isl (dispatchOne s p i region agent tx)"
  by (auto simp: dispatchOne_def OutboxInsertMessage_def InsertAssignment_def Let_def
           split: sum.splits)

lemma dispatchAll_fault:
  "k < length ags \<Longrightarrow>
   rs_fails s (OpInsertOutbox (i + k)) \<or> rs_fails s (OpInsertAssignment (i + k)) \<Longrightarrow>
   isl (dispatchAll s p i ags tx)"
proof (induction ags arbitrary: i k tx)
  case Nil
  then show ?case by simp
next
  case (Cons agent rest)
  show ?case
  proof (cases k)
    case 0
    with Cons.prems(2) have "isl (dispatchOne s p i (ag_Region agent) agent tx)"
      by (simp add: dispatchOne_fault)
    then show ?thesis by (auto split: sum.splits)
  next
    case (Suc k')
    with Cons.prems have "k' < length rest"
      and "rs_fails s (OpInsertOutbox (Suc i + k')) \<or> rs_fails s (OpInsertAssignment (Suc i + k'))"
      by simp_all
    then have "\<And>tx'. isl (dispatchAll s p (Suc i) rest tx')"
      by (rule Cons.IH)
    then show ?thesis by (auto split: sum.splits)
  qed
qed

lemma CreateRequest_error_keeps_db:
  "isl (fst (CreateRequest s db req ip ua)) \<Longrightarrow> snd (CreateRequest s db req ip ua) = db"
  by (auto simp: CreateRequest_def split: sum.splits if_splits prod.splits)

lemma dispatchTx_fault:
  assumes "rs_fails s OpInsertRequest
     \<or> (req_Broadcast req \<and> (rs_fails s OpSelectAgents
          \<or> (\<exists>i<length (agents db). rs_fails s (OpInsertOutbox i)
                                     \<or> rs_fails s (OpInsertAssignment i))))
     \<or> (\<not> req_Broadcast req \<and> (rs_fails s OpSelectAgentByRegion
          \<or> rs_fails s (OpInsertOutbox 0) \<or> rs_fails s (OpInsertAssignment 0)))"
  shows "isl (dispatchTx s req ip payload rq db)"
proof (cases "InsertRequest (rs_fails s) (rs_now s) db rq")
  case (Inl e)
  then show ?thesis by (simp add: dispatchTx_def)
next
  case (Inr pr)
  obtain tx1 stored where pr: "pr = (tx1, stored)" by (cases pr)
  with Inr have ins: "InsertRequest (rs_fails s) (rs_now s) db rq = Inr (tx1, stored)" by simp
  then have nf: "\<not> rs_fails s OpInsertRequest" and ag: "agents tx1 = agents db"
    by (auto simp: InsertRequest_def Let_def split: if_splits)
  show ?thesis
  proof (cases "req_Broadcast req")
    case True
    with assms nf consider "rs_fails s OpSelectAgents"
      | i where "i < length (agents db)"
          "rs_fails s (OpInsertOutbox i) \<or> rs_fails s (OpInsertAssignment i)"
      by blast
    then show ?thesis
    proof cases
      case 1
      with ins True show ?thesis by (simp add: dispatchTx_def SelectAgents_def)
    next
      case 2
      then have "isl (dispatchAll s payload 0 (agents tx1) tx1)"
        using dispatchAll_fault [of i "agents tx1" s 0 payload tx1] ag by simp
      with ins True show ?thesis
        by (auto simp: dispatchTx_def SelectAgents_def split: sum.splits)
    qed
  next
    case False
    with assms nf consider "rs_fails s OpSelectAgentByRegion"
      | "rs_fails s (OpInsertOutbox 0) \<or> rs_fails s (OpInsertAssignment 0)"
      by blast
    then show ?thesis
    proof cases
      case 1
      with ins False show ?thesis by (simp add: dispatchTx_def SelectAgentByRegion_def)
    next
      case 2
      then have "\<And>agent tx'. dispatchOne s payload 0 (Region (Lookup (geo s) ip)) agent tx1
                               \<noteq> Inr tx'"
        by (intro isl_neq_Inr dispatchOne_fault)
      with ins False show ?thesis
        by (auto simp: dispatchTx_def split: sum.splits)
    qed
  qed
qed

text \<open>
  C5. Whenever \<open>CreateRequest\<close> returns an error the database is as before the call;
  and a failure of the begin, of the request insert, of the agent selection, of an outbox
  or assignment insert for one of the agents, or of the commit makes it return an error.
\<close>

theorem CreateRequest_failure:
  "(isl (fst (CreateRequest s db req ip ua)) \<longrightarrow> snd (CreateRequest s db req ip ua) = db)
   \<and> (rs_fails s OpBegin \<or> rs_fails s OpInsertRequest \<or> rs_fails s OpCommit
       \<or> (req_Broadcast req \<and> (rs_fails s OpSelectAgents
            \<or> (\<exists>i<length (agents db). rs_fails s (OpInsertOutbox i)
                                       \<or> rs_fails s (OpInsertAssignment i))))
       \<or> (\<not> req_Broadcast req \<and> (rs_fails s OpSelectAgentByRegion
            \<or> rs_fails s (OpInsertOutbox 0) \<or> rs_fails s (OpInsertAssignment 0)))
      \<longrightarrow> isl (fst (CreateRequest s db req ip ua)) \<and> snd (CreateRequest s db req ip ua) = db)"
proof (rule conjI; rule impI)
  assume "isl (fst (CreateRequest s db req ip ua))"
  then show "snd (CreateRequest s db req ip ua) = db"
    by (rule CreateRequest_error_keeps_db)
next
  assume f: "rs_fails s OpBegin \<or> rs_fails s OpInsertRequest \<or> rs_fails s OpCommit
       \<or> (req_Broadcast req \<and> (rs_fails s OpSelectAgents
            \<or> (\<exists>i<length (agents db). rs_fails s (OpInsertOutbox i)
                                       \<or> rs_fails s (OpInsertAssignment i))))
       \<or> (\<not> req_Broadcast req \<and> (rs_fails s OpSelectAgentByRegion
            \<or> rs_fails s (OpInsertOutbox 0) \<or> rs_fails s (OpInsertAssignment 0)))"
  have e: "isl (fst (CreateRequest s db req ip ua))"
  proof (cases "rs_fails s OpBegin \<or> rs_fails s OpCommit")
    case True
    then show ?thesis
      by (auto simp: CreateRequest_def split: sum.splits prod.splits)
  next
    case False
    with f have "\<And>payload rq. isl (dispatchTx s req ip payload rq db)"
      by (intro dispatchTx_fault) blast
    then have "\<And>payload rq y. dispatchTx s req ip payload rq db \<noteq> Inr y"
      by (intro isl_neq_Inr)
    then show ?thesis
      by (auto simp: CreateRequest_def split: sum.splits prod.splits)
  qed
  from e CreateRequest_error_keeps_db [OF e]
  show "isl (fst (CreateRequest s db req ip ua)) \<and> snd (CreateRequest s db req ip ua) = db"
    by simp
qed

theorem CreateRequest_failure_witness:
  "CreateRequest (exampleService\<lparr>rs_fails := (\<lambda>op. op = OpInsertAssignment 1)\<rparr>) exampleDB
       (exampleRequest True) (Some exampleIP) ''curl''
   = (Inl (Err ''failed to insert assignment: database error''), exampleDB)"
proof -
  let ?s = "exampleService\<lparr>rs_fails := (\<lambda>op. op = OpInsertAssignment 1)\<rparr>"
  let ?c = "CreateRequest ?s exampleDB (exampleRequest True) (Some exampleIP) ''curl''"
  have "req_Broadcast (exampleRequest True)
        \<and> 1 < length (agents exampleDB) \<and> rs_fails ?s (OpInsertAssignment 1)"
    by (simp add: example_defs)
  then have "req_Broadcast (exampleRequest True) \<and> (rs_fails ?s OpSelectAgents
            \<or> (\<exists>i<length (agents exampleDB). rs_fails ?s (OpInsertOutbox i)
                                       \<or> rs_fails ?s (OpInsertAssignment i)))"
    by blast
  with CreateRequest_failure [of ?s exampleDB "exampleRequest True" "Some exampleIP" "''curl''"]
  have "isl (fst ?c)" and db: "snd ?c = exampleDB"
    by blast+
  moreover have "fst ?c = Inl (Err ''failed to insert assignment: database error'')"
    by (simp add: dispatch_defs example_defs column_defs IPString_exampleIP inetInput_exampleIP
                  Let_def Lookup_def lookupCountry_def lookupASN_def regionOf_def ToUpper_def
                  zeroGeoInfo_def EuropeRegion_def)
  ultimately show ?thesis
    by (simp add: prod_eq_iff)
qed


section \<open>Outbox publisher (package outbox)\<close>

text \<open>
  \<open>OutboxRepository.SelectUnsentBatch\<close>: the rows with \<open>sent = false\<close>, ordered by
  \<open>created_at\<close>, at most \<open>batchSize\<close> of them (a negative limit is an error of the
  database). \<open>UpdateAsSent\<close> sets \<open>sent\<close> and \<open>sent_at\<close> of the row with the id.
\<close>

definition SelectUnsentBatch ::
  "(dbop \<Rightarrow> bool) \<Rightarrow> DB \<Rightarrow> int \<Rightarrow> error + OutboxMessage list" where
  "SelectUnsentBatch fails tx batchSize =
     (if fails OpSelectUnsentBatch then Inl dbError
      else if batchSize < 0 then Inl (Err ''LIMIT must not be negative'')
      else Inr (take (nat batchSize)
                  (sort_key ob_CreatedAt (filter (\<lambda>m. \<not> ob_Sent m) (outbox_messages tx)))))"

definition UpdateAsSent :: "(dbop \<Rightarrow> bool) \<Rightarrow> instant \<Rightarrow> DB \<Rightarrow> uuid \<Rightarrow> error + DB" where
  "UpdateAsSent fails now tx messageID =
     (if fails OpUpdateAsSent then Inl dbError
      else Inr (tx\<lparr>outbox_messages :=
                  map (\<lambda>m. if ob_ID m = messageID
                            then m\<lparr>ob_Sent := True, ob_SentAt := Some now\<rparr> else m)
                      (outbox_messages tx)\<rparr>))"

text \<open>
  The bus is the log of the messages published so far. \<open>Publisher.sendAndMark\<close> on a
  message, given whether \<open>PushMessage\<close> succeeds and which database calls fail: the
  error or the offset, the database after it and the bus after it.
\<close>

record BusMessage =
  bm_Key :: bytes
  bm_Value :: bytes
  bm_Topic :: string

record SendResult =
  sr_result :: "error + int"
  sr_db :: DB
  sr_bus :: "BusMessage list"

definition busMessageOf :: "OutboxMessage \<Rightarrow> BusMessage" where
  "busMessageOf message =
     \<lparr>bm_Key = ob_ID message, bm_Value = ob_Payload message, bm_Topic = ob_Topic message\<rparr>"

definition sendAndMark ::
  "bool \<Rightarrow> (dbop \<Rightarrow> bool) \<Rightarrow> instant \<Rightarrow> DB \<Rightarrow> BusMessage list \<Rightarrow> OutboxMessage \<Rightarrow> SendResult" where
  "sendAndMark pushOK fails now db bus message =
     (if \<not> pushOK
      then \<lparr>sr_result = Inl (wrap ''failed to push message'' (Err ''publish error'')),
            sr_db = db, sr_bus = bus\<rparr>
      else (let bus' = bus @ [busMessageOf message]
            in case UpdateAsSent fails now db (ob_ID message) of
                 Inl e \<Rightarrow> \<lparr>sr_result = Inl (wrap ''failed to update as sent'' e),
                           sr_db = db, sr_bus = bus'\<rparr>
               | Inr db' \<Rightarrow> \<lparr>sr_result = Inr (int (length bus)), sr_db = db', sr_bus = bus'\<rparr>))"

text \<open>
  The publisher as a transition system. \<open>Run\<close> polls on a tick (\<open>Poll\<close>) and then sends
  the batch into the channel one message at a time (\<open>Push\<close>, possible while the channel
  of capacity \<open>BatchSize * 5\<close> has room); a worker receives the oldest message of the
  channel and runs \<open>sendAndMark\<close> on it (\<open>Work\<close>). The actions carry what the outside
  does: whether the select, the publish and the update succeed. The scheduler picks the
  order of the actions; an action that is not enabled leaves the state as it is.
\<close>

record PublisherState =
  ps_db :: DB
  ps_bus :: "BusMessage list"
  ps_batch :: "OutboxMessage list"
  ps_pipe :: "OutboxMessage list"
  ps_now :: instant

datatype action = Poll bool | Push | Work bool bool

definition BathSizeMultiply :: int where
  "BathSizeMultiply = 5"

fun step :: "int \<Rightarrow> action \<Rightarrow> PublisherState \<Rightarrow> PublisherState" where
  "step batchSize (Poll selectOK) st =
     (if ps_batch st \<noteq> [] then st
      else (case SelectUnsentBatch (\<lambda>op. \<not> selectOK) (ps_db st) batchSize of
              Inl e \<Rightarrow> st\<lparr>ps_now := Suc (ps_now st)\<rparr>
            | Inr messages \<Rightarrow> st\<lparr>ps_batch := messages, ps_now := Suc (ps_now st)\<rparr>))"
| "step batchSize Push st =
     (case ps_batch st of
        [] \<Rightarrow> st
      | msg # rest \<Rightarrow>
          (if int (length (ps_pipe st)) < batchSize * BathSizeMultiply
           then st\<lparr>ps_batch := rest, ps_pipe := ps_pipe st @ [msg]\<rparr>
           else st))"
| "step batchSize (Work pushOK updateOK) st =
     (case ps_pipe st of
        [] \<Rightarrow> st
      | msg # rest \<Rightarrow>
          (let r = sendAndMark pushOK (\<lambda>op. \<not> updateOK) (ps_now st) (ps_db st) (ps_bus st) msg
           in st\<lparr>ps_db := sr_db r, ps_bus := sr_bus r, ps_pipe := rest,
                 ps_now := Suc (ps_now st)\<rparr>))"

definition run :: "int \<Rightarrow> action list \<Rightarrow> PublisherState \<Rightarrow> PublisherState" where
  "run batchSize acts st = foldl (\<lambda>s a. step batchSize a s) st acts"

definition startState :: "DB \<Rightarrow> PublisherState" where
  "startState db = \<lparr>ps_db = db, ps_bus = [], ps_batch = [], ps_pipe = [], ps_now = 0\<rparr>"

text \<open>The invariant of the outbox table: a row that is marked sent has its \<open>sent_at\<close>.\<close>

definition sentHasSentAt :: "DB \<Rightarrow> bool" where
  "sentHasSentAt db = list_all (\<lambda>m. \<not> ob_Sent m \<or> ob_SentAt m \<noteq> None) (outbox_messages db)"

text \<open>The publisher before its first tick, and an outbox with one unsent row.\<close>

definition exampleOutboxDB :: DB where
  "exampleOutboxDB = emptyDB\<lparr>outbox_messages :=
     [\<lparr>ob_ID = ''00000000000000o1'', ob_Topic = ''hosts-check-EU'', ob_Payload = ''{task}'',
       ob_CreatedAt = 0, ob_Sent = False, ob_SentAt = None\<rparr>]\<rparr>"

lemmas outbox_defs = run_def startState_def exampleOutboxDB_def emptyDB_def SelectUnsentBatch_def
  UpdateAsSent_def sendAndMark_def busMessageOf_def BathSizeMultiply_def  dbError_def

text \<open>
  C6 as stated fails in its last part. With one unsent row and batch size 1, two polls
  before the worker gets to run put the row into the channel twice; the worker publishes
  and marks the first copy, and then publishes the second copy although the row is marked
  sent by then.
\<close>

theorem outbox_republished_after_mark:
  "map ob_Sent (outbox_messages (ps_db
      (run 1 [Poll True, Push, Poll True, Push, Work True True] (startState exampleOutboxDB))))
     = [True]
   \<and> map bm_Key (ps_bus
      (run 1 [Poll True, Push, Poll True, Push, Work True True] (startState exampleOutboxDB)))
     = [''00000000000000o1'']
   \<and> map bm_Key (ps_bus
      (run 1 [Poll True, Push, Poll True, Push, Work True True, Work True True]
         (startState exampleOutboxDB)))
     = [''00000000000000o1'', ''00000000000000o1'']"
  by (simp add: outbox_defs Let_def)

lemma SelectUnsentBatch_unsent:
  "SelectUnsentBatch fails db n = Inr ms \<Longrightarrow> x \<in> set ms \<Longrightarrow>
   \<not> ob_Sent x \<and> x \<in> set (outbox_messages db)"
proof -
  assume h: "SelectUnsentBatch fails db n = Inr ms" and x: "x \<in> set ms"
  from h have "ms = take (nat n)
                 (sort_key ob_CreatedAt (filter (\<lambda>m. \<not> ob_Sent m) (outbox_messages db)))"
    by (auto simp: SelectUnsentBatch_def split: if_splits)
  with x have "x \<in> set (sort_key ob_CreatedAt (filter (\<lambda>m. \<not> ob_Sent m) (outbox_messages db)))"
    by (auto dest: in_set_takeD)
  then show ?thesis by simp
qed

lemma sendAndMark_keeps_sentHasSentAt:
  "sentHasSentAt db \<Longrightarrow> sentHasSentAt (sr_db (sendAndMark pushOK fails now db bus m))"
  by (auto simp: sentHasSentAt_def sendAndMark_def UpdateAsSent_def Let_def list_all_iff
           split: sum.splits)

lemma step_keeps_sentHasSentAt:
  "sentHasSentAt (ps_db st) \<Longrightarrow> sentHasSentAt (ps_db (step n a st))"
proof (cases a)
  case (Poll ok)
  then show "sentHasSentAt (ps_db st) \<Longrightarrow> sentHasSentAt (ps_db (step n a st))"
    by (auto split: sum.splits)
next
  case Push
  then show "sentHasSentAt (ps_db st) \<Longrightarrow> sentHasSentAt (ps_db (step n a st))"
    by (auto split: list.splits)
next
  case (Work p u)
  then show "sentHasSentAt (ps_db st) \<Longrightarrow> sentHasSentAt (ps_db (step n a st))"
    by (auto simp: Let_def sendAndMark_keeps_sentHasSentAt split: list.splits)
qed

lemma run_keeps_sentHasSentAt:
  "sentHasSentAt (ps_db st) \<Longrightarrow> sentHasSentAt (ps_db (run n acts st))"
proof (induction acts arbitrary: st)
  case Nil
  then show ?case by (simp add: run_def)
next
  case (Cons a acts)
  from Cons.prems have "sentHasSentAt (ps_db (step n a st))"
    by (rule step_keeps_sentHasSentAt)
  then have "sentHasSentAt (ps_db (run n acts (step n a st)))"
    by (rule Cons.IH)
  then show ?case by (simp add: run_def)
qed

lemma mark_keeps_ids:
  "map ob_ID (map (\<lambda>m. if ob_ID m = i then m\<lparr>ob_Sent := True, ob_SentAt := Some now\<rparr> else m) xs)
   = map ob_ID xs"
  by (induction xs) auto

lemma mark_keeps_others:
  "filter (\<lambda>x. ob_ID x \<noteq> i)
     (map (\<lambda>m. if ob_ID m = i then m\<lparr>ob_Sent := True, ob_SentAt := Some now\<rparr> else m) xs)
   = filter (\<lambda>x. ob_ID x \<noteq> i) xs"
  by (induction xs) auto

lemma sendAndMark_error_keeps_db:
  "isl (sr_result (sendAndMark pushOK fails now db bus m))
   \<Longrightarrow> sr_db (sendAndMark pushOK fails now db bus m) = db"
  by (auto simp: sendAndMark_def Let_def split: sum.splits)

lemma sendAndMark_rows:
  "map ob_ID (outbox_messages (sr_db (sendAndMark pushOK fails now db bus m)))
     = map ob_ID (outbox_messages db)
   \<and> filter (\<lambda>x. ob_ID x \<noteq> ob_ID m)
        (outbox_messages (sr_db (sendAndMark pushOK fails now db bus m)))
     = filter (\<lambda>x. ob_ID x \<noteq> ob_ID m) (outbox_messages db)
   \<and> (sr_db (sendAndMark pushOK fails now db bus m))\<lparr>outbox_messages := outbox_messages db\<rparr> = db"
  by (auto simp: sendAndMark_def UpdateAsSent_def Let_def mark_keeps_ids mark_keeps_others
           split: sum.splits)

lemma sendAndMark_marked:
  "x \<in> set (outbox_messages (sr_db (sendAndMark True (\<lambda>op. False) now db bus m)))
   \<Longrightarrow> ob_ID x = ob_ID m \<Longrightarrow> ob_Sent x \<and> ob_SentAt x = Some now"
  by (auto simp: sendAndMark_def UpdateAsSent_def Let_def)

lemma SelectUnsentBatch_all:
  assumes "\<not> fails OpSelectUnsentBatch"
    and "int (length (filter (\<lambda>x. \<not> ob_Sent x) (outbox_messages db))) \<le> n"
    and "m \<in> set (outbox_messages db)" and "\<not> ob_Sent m"
  shows "\<exists>ms. SelectUnsentBatch fails db n = Inr ms \<and> m \<in> set ms"
proof -
  let ?u = "sort_key ob_CreatedAt (filter (\<lambda>x. \<not> ob_Sent x) (outbox_messages db))"
  from assms(2) have n: "0 \<le> n" and "length ?u \<le> nat n" by simp_all
  then have "take (nat n) ?u = ?u" by simp
  with assms(1) n have "SelectUnsentBatch fails db n = Inr ?u"
    by (simp add: SelectUnsentBatch_def)
  moreover from assms(3,4) have "m \<in> set ?u" by simp
  ultimately show ?thesis by blast
qed

lemma SelectUnsentBatch_again:
  assumes "SelectUnsentBatch fails db n = Inr ms" and "\<not> fails' OpSelectUnsentBatch"
  shows "SelectUnsentBatch fails' db n = Inr ms"
  using assms by (auto simp: SelectUnsentBatch_def split: if_splits)

text \<open>Two unsent rows, for the example of the publisher's marking.\<close>

definition exampleOutboxRows :: DB where
  "exampleOutboxRows = emptyDB\<lparr>outbox_messages :=
     [\<lparr>ob_ID = ''00000000000000o1'', ob_Topic = ''hosts-check-EU'', ob_Payload = ''{task}'',
       ob_CreatedAt = 0, ob_Sent = False, ob_SentAt = None\<rparr>,
      \<lparr>ob_ID = ''00000000000000o2'', ob_Topic = ''hosts-check-US'', ob_Payload = ''{task}'',
       ob_CreatedAt = 1, ob_Sent = False, ob_SentAt = None\<rparr>]\<rparr>"

text \<open>
  C6, amended. The publisher marks a row sent (setting \<open>sent_at\<close> in the same update)
  only after the publish of that row succeeded, and it marks that row only: the rows with
  another id, and every other table, stay as they are. A failed publish, and any other
  error of \<open>sendAndMark\<close>, leaves the database as it was, so that the row is selected
  again by a later poll with the limit of the poll that selected it, and by a later poll
  whose limit covers the unsent rows. \<open>SelectUnsentBatch\<close> returns only rows that are not
  marked sent, so no poll after the mark queues the row again (a copy queued by an earlier
  poll can still be published after the mark).
\<close>

theorem sendAndMark_marks_after_publish:
  "sr_db (sendAndMark False fails now db bus m) = db
   \<and> sr_bus (sendAndMark False fails now db bus m) = bus
   \<and> isl (sr_result (sendAndMark False fails now db bus m))
   \<and> (sr_db (sendAndMark pushOK fails now db bus m) \<noteq> db
        \<longrightarrow> pushOK \<and> sr_bus (sendAndMark pushOK fails now db bus m) = bus @ [busMessageOf m])
   \<and> (\<forall>x \<in> set (outbox_messages (sr_db (sendAndMark True (\<lambda>op. False) now db bus m))).
         ob_ID x = ob_ID m \<longrightarrow> ob_Sent x \<and> ob_SentAt x = Some now)
   \<and> (SelectUnsentBatch fails db n = Inr ms
        \<longrightarrow> (\<forall>x \<in> set ms. \<not> ob_Sent x \<and> x \<in> set (outbox_messages db)))
   \<and> map ob_ID (outbox_messages (sr_db (sendAndMark pushOK fails now db bus m)))
       = map ob_ID (outbox_messages db)
   \<and> filter (\<lambda>x. ob_ID x \<noteq> ob_ID m)
        (outbox_messages (sr_db (sendAndMark pushOK fails now db bus m)))
       = filter (\<lambda>x. ob_ID x \<noteq> ob_ID m) (outbox_messages db)
   \<and> (sr_db (sendAndMark pushOK fails now db bus m))\<lparr>outbox_messages := outbox_messages db\<rparr> = db
   \<and> (isl (sr_result (sendAndMark pushOK fails now db bus m))
        \<longrightarrow> sr_db (sendAndMark pushOK fails now db bus m) = db)
   \<and> (isl (sr_result (sendAndMark pushOK fails now db bus m))
        \<and> m \<in> set (outbox_messages db) \<and> \<not> ob_Sent m
        \<and> \<not> fails' OpSelectUnsentBatch
        \<and> int (length (filter (\<lambda>x. \<not> ob_Sent x) (outbox_messages db))) \<le> k
        \<longrightarrow> (\<exists>again. SelectUnsentBatch fails'
                        (sr_db (sendAndMark pushOK fails now db bus m)) k = Inr again
                      \<and> m \<in> set again))
   \<and> (SelectUnsentBatch fails' (sr_db (sendAndMark True (\<lambda>op. False) now db bus m)) k = Inr later
        \<longrightarrow> (\<forall>x \<in> set later. ob_ID x \<noteq> ob_ID m))
   \<and> (SelectUnsentBatch fails db n = Inr ms \<and> m \<in> set ms
        \<and> isl (sr_result (sendAndMark pushOK fails now db bus m))
        \<and> \<not> fails' OpSelectUnsentBatch
        \<longrightarrow> SelectUnsentBatch fails' (sr_db (sendAndMark pushOK fails now db bus m)) n = Inr ms)"
proof -
  have a: "sr_db (sendAndMark False fails now db bus m) = db
          \<and> sr_bus (sendAndMark False fails now db bus m) = bus
          \<and> isl (sr_result (sendAndMark False fails now db bus m))"
    by (simp add: sendAndMark_def)
  have b: "sr_db (sendAndMark pushOK fails now db bus m) \<noteq> db
        \<longrightarrow> pushOK \<and> sr_bus (sendAndMark pushOK fails now db bus m) = bus @ [busMessageOf m]"
    by (auto simp: sendAndMark_def Let_def split: sum.splits)
  have c: "\<forall>x \<in> set (outbox_messages (sr_db (sendAndMark True (\<lambda>op. False) now db bus m))).
         ob_ID x = ob_ID m \<longrightarrow> ob_Sent x \<and> ob_SentAt x = Some now"
    using sendAndMark_marked by blast
  have d: "SelectUnsentBatch fails db n = Inr ms
        \<longrightarrow> (\<forall>x \<in> set ms. \<not> ob_Sent x \<and> x \<in> set (outbox_messages db))"
    using SelectUnsentBatch_unsent by blast
  note e = sendAndMark_rows [of pushOK fails now db bus m]
  have f: "isl (sr_result (sendAndMark pushOK fails now db bus m))
        \<longrightarrow> sr_db (sendAndMark pushOK fails now db bus m) = db"
    using sendAndMark_error_keeps_db by blast
  have g: "isl (sr_result (sendAndMark pushOK fails now db bus m))
        \<and> m \<in> set (outbox_messages db) \<and> \<not> ob_Sent m
        \<and> \<not> fails' OpSelectUnsentBatch
        \<and> int (length (filter (\<lambda>x. \<not> ob_Sent x) (outbox_messages db))) \<le> k
        \<longrightarrow> (\<exists>again. SelectUnsentBatch fails'
                        (sr_db (sendAndMark pushOK fails now db bus m)) k = Inr again
                      \<and> m \<in> set again)"
  proof
    assume h: "isl (sr_result (sendAndMark pushOK fails now db bus m))
        \<and> m \<in> set (outbox_messages db) \<and> \<not> ob_Sent m
        \<and> \<not> fails' OpSelectUnsentBatch
        \<and> int (length (filter (\<lambda>x. \<not> ob_Sent x) (outbox_messages db))) \<le> k"
    then have "sr_db (sendAndMark pushOK fails now db bus m) = db"
      using f by blast
    moreover from h have "\<exists>again. SelectUnsentBatch fails' db k = Inr again \<and> m \<in> set again"
      by (intro SelectUnsentBatch_all) simp_all
    ultimately show "\<exists>again. SelectUnsentBatch fails'
                        (sr_db (sendAndMark pushOK fails now db bus m)) k = Inr again
                      \<and> m \<in> set again"
      by simp
  qed
  have h: "SelectUnsentBatch fails' (sr_db (sendAndMark True (\<lambda>op. False) now db bus m)) k = Inr later
        \<longrightarrow> (\<forall>x \<in> set later. ob_ID x \<noteq> ob_ID m)"
    using SelectUnsentBatch_unsent sendAndMark_marked by blast
  have i: "SelectUnsentBatch fails db n = Inr ms \<and> m \<in> set ms
        \<and> isl (sr_result (sendAndMark pushOK fails now db bus m))
        \<and> \<not> fails' OpSelectUnsentBatch
        \<longrightarrow> SelectUnsentBatch fails' (sr_db (sendAndMark pushOK fails now db bus m)) n = Inr ms"
    using SelectUnsentBatch_again sendAndMark_error_keeps_db by metis
  from a b c d e f g h i show ?thesis by blast
qed

theorem sendAndMark_marks_after_publish_witness:
  "map (\<lambda>x. (ob_ID x, ob_Sent x, ob_SentAt x)) (outbox_messages
      (sr_db (sendAndMark True (\<lambda>op. False) 7 exampleOutboxRows []
                (hd (outbox_messages exampleOutboxRows)))))
     = [(''00000000000000o1'', True, Some 7), (''00000000000000o2'', False, None)]
   \<and> sr_bus (sendAndMark True (\<lambda>op. False) 7 exampleOutboxRows []
                (hd (outbox_messages exampleOutboxRows)))
     = [\<lparr>bm_Key = ''00000000000000o1'', bm_Value = ''{task}'', bm_Topic = ''hosts-check-EU''\<rparr>]
   \<and> map ob_ID (projr (SelectUnsentBatch (\<lambda>op. False)
        (sr_db (sendAndMark False (\<lambda>op. False) 7 exampleOutboxRows []
                  (hd (outbox_messages exampleOutboxRows)))) 2))
     = [''00000000000000o1'', ''00000000000000o2'']
   \<and> map ob_ID (projr (SelectUnsentBatch (\<lambda>op. False)
        (sr_db (sendAndMark True (\<lambda>op. False) 7 exampleOutboxRows []
                  (hd (outbox_messages exampleOutboxRows)))) 2))
     = [''00000000000000o2'']"
proof -
  let ?m = "hd (outbox_messages exampleOutboxRows)"
  let ?ok = "sendAndMark True (\<lambda>op. False) 7 exampleOutboxRows [] ?m"
  let ?ko = "sendAndMark False (\<lambda>op. False) 7 exampleOutboxRows [] ?m"
  let ?later = "projr (SelectUnsentBatch (\<lambda>op. False) (sr_db ?ok) 2)"
  note ok = sendAndMark_marks_after_publish
             [of "\<lambda>op. False" 7 exampleOutboxRows "[]" ?m True 2
                 "projr (SelectUnsentBatch (\<lambda>op. False) exampleOutboxRows 2)"
                 "\<lambda>op. False" 2 ?later]
  note ko = sendAndMark_marks_after_publish
             [of "\<lambda>op. False" 7 exampleOutboxRows "[]" ?m False 2
                 "projr (SelectUnsentBatch (\<lambda>op. False) exampleOutboxRows 2)"
                 "\<lambda>op. False" 2 ?later]
  have changed: "sr_db ?ok \<noteq> exampleOutboxRows"
    by (simp add: exampleOutboxRows_def outbox_defs Let_def)
  with ok have bus: "sr_bus ?ok = [] @ [busMessageOf ?m]" by blast
  have rows: "map (\<lambda>x. (ob_ID x, ob_Sent x, ob_SentAt x)) (outbox_messages (sr_db ?ok))
              = [(''00000000000000o1'', True, Some 7), (''00000000000000o2'', False, None)]"
    by (simp add: exampleOutboxRows_def outbox_defs Let_def)
  have unsent: "?m \<in> set (outbox_messages exampleOutboxRows) \<and> \<not> ob_Sent ?m
        \<and> \<not> (\<lambda>op. False) OpSelectUnsentBatch
        \<and> int (length (filter (\<lambda>x. \<not> ob_Sent x) (outbox_messages exampleOutboxRows))) \<le> 2"
    by (simp add: exampleOutboxRows_def emptyDB_def)
  from ko have same: "sr_db ?ko = exampleOutboxRows" by blast
  from ko unsent obtain again where
    again: "SelectUnsentBatch (\<lambda>op. False) (sr_db ?ko) 2 = Inr again" and "?m \<in> set again"
    by blast
  have retry: "map ob_ID (projr (SelectUnsentBatch (\<lambda>op. False) (sr_db ?ko) 2))
               = [''00000000000000o1'', ''00000000000000o2'']"
    unfolding same by (simp add: exampleOutboxRows_def outbox_defs)
  have sel: "SelectUnsentBatch (\<lambda>op. False) (sr_db ?ok) 2 = Inr ?later"
    by (simp add: SelectUnsentBatch_def)
  with ok have "\<forall>x \<in> set ?later. ob_ID x \<noteq> ob_ID ?m" by blast
  moreover have "map ob_ID ?later = [''00000000000000o2'']"
    by (simp add: exampleOutboxRows_def outbox_defs Let_def)
  ultimately have later: "map ob_ID ?later = [''00000000000000o2'']" by simp
  from bus have bus': "sr_bus ?ok = [\<lparr>bm_Key = ''00000000000000o1'', bm_Value = ''{task}'',
                                       bm_Topic = ''hosts-check-EU''\<rparr>]"
    by (simp add: busMessageOf_def exampleOutboxRows_def)
  from rows bus' retry later show ?thesis by simp
qed

section \<open>Inbox subscriber (package inbox)\<close>

text \<open>
  \<open>InboxRepository.InsertMessage\<close>: \<open>INSERT ... ON CONFLICT DO NOTHING\<close>; the columns
  not listed take their defaults. \<open>RequestRepository.InsertCheckResult\<close>: a plain
  insert, which the primary key rejects when the id is taken.
\<close>

definition InboxInsertMessage ::
  "(dbop \<Rightarrow> bool) \<Rightarrow> instant \<Rightarrow> DB \<Rightarrow> InboxMessage \<Rightarrow> error + DB" where
  "InboxInsertMessage fails now tx message =
     (if fails OpInsertInbox then Inl dbError
      else if ib_ID message \<in> set (map ib_ID (inbox_messages tx)) then Inr tx
      else Inr (tx\<lparr>inbox_messages := inbox_messages tx @
                  [\<lparr>ib_ID = ib_ID message, ib_Topic = ib_Topic message,
                    ib_Payload = ib_Payload message, ib_CreatedAt = now,
                    ib_Processed = False, ib_ProcessedAt = None\<rparr>]\<rparr>))"

definition InsertCheckResult ::
  "(dbop \<Rightarrow> bool) \<Rightarrow> DB \<Rightarrow> CheckResult \<Rightarrow> error + DB" where
  "InsertCheckResult fails tx checkResult =
     (if fails OpInsertCheckResult then Inl dbError
      else if cr_ID checkResult \<in> set (map cr_ID (check_results tx))
        then Inl (Err ''duplicate key value violates unique constraint'')
      else Inr (tx\<lparr>check_results := check_results tx @ [checkResult]\<rparr>))"

text \<open>
  A bus message with its key and value; \<open>Mark\<close> is recorded by the worker's result.
  \<open>CheckResultFromAgent\<close> holds the fields of the envelope that \<open>process\<close> reads.
  The subscriber's surroundings: the configured topic, the JSON decoder of the envelope
  (\<open>None\<close> when \<open>json.Unmarshal\<close> fails), the fault oracle, the UUID drawn by
  \<open>uuid.New\<close> and the clock.
\<close>

record Message =
  Key :: bytes
  Value :: bytes

record CheckResultFromAgent =
  fa_TaskID :: uuid
  fa_Type :: string
  fa_StartedAt :: instant
  fa_OK :: bool

record Subscriber =
  cfg_Topic :: string
  unmarshal :: "bytes \<Rightarrow> CheckResultFromAgent option"
  sub_fails :: "dbop \<Rightarrow> bool"
  sub_newUUID :: uuid
  sub_now :: instant

definition resultStatus :: "bool \<Rightarrow> string" where
  "resultStatus ok = (if ok then ''DONE'' else ''FAILED'')"

text \<open>
  \<open>Subscriber.process\<close>: returns the error (or none) and the database after the call.
  The transaction works on a copy; only a successful commit installs it, every error
  return runs the deferred rollback and leaves the database as it was.
\<close>

definition process :: "Subscriber \<Rightarrow> DB \<Rightarrow> Message \<Rightarrow> error option \<times> DB" where
  "process s db message =
     (case FromBytes (Key message) of
        Inl e \<Rightarrow> (Some (wrap ''failed to parse message id'' e), db)
      | Inr messageID \<Rightarrow>
          (let messageInbox = \<lparr>ib_ID = messageID, ib_Topic = cfg_Topic s,
                                ib_Payload = Value message, ib_CreatedAt = 0,
                                ib_Processed = False, ib_ProcessedAt = None\<rparr>
           in case unmarshal s (Value message) of
                None \<Rightarrow> (Some (wrap ''failed to unmarshal checkResult'' (Err ''invalid JSON'')), db)
              | Some fromAgent \<Rightarrow>
                  (let checkResult = \<lparr>cr_ID = sub_newUUID s,
                                        cr_AssignmentId = fa_TaskID fromAgent,
                                        cr_Type = fa_Type fromAgent,
                                        cr_Status = resultStatus (fa_OK fromAgent),
                                        cr_StartedAt = fa_StartedAt fromAgent,
                                        cr_FinishedAt = sub_now s,
                                        cr_Payload = Value message\<rparr>
                   in if sub_fails s OpBegin
                      then (Some (wrap ''error begin transaction'' dbError), db)
                      else (case InboxInsertMessage (sub_fails s) (sub_now s) db messageInbox of
                              Inl e \<Rightarrow> (Some (wrap ''failed to insert message'' e), db)
                            | Inr tx1 \<Rightarrow>
                                (case InsertCheckResult (sub_fails s) tx1 checkResult of
                                   Inl e \<Rightarrow> (Some (wrap ''failed to insert checkResult'' e), db)
                                 | Inr tx2 \<Rightarrow>
                                     (if sub_fails s OpCommit
                                      then (Some (wrap ''failed to commit transaction'' dbError), db)
                                      else (None, tx2)))))))"

text \<open>
  One turn of \<open>Subscriber.worker\<close> on a received message: the database after it, whether
  \<open>msg.Mark()\<close> was called, and the lines logged at error level.
\<close>

record WorkerResult =
  wr_db :: DB
  wr_marked :: bool
  wr_errors :: "string list"

definition worker :: "Subscriber \<Rightarrow> DB \<Rightarrow> Message \<Rightarrow> WorkerResult" where
  "worker s db msg =
     (case FromBytes (Key msg) of
        Inl e \<Rightarrow> \<lparr>wr_db = db, wr_marked = False,
                  wr_errors = [''Error parsing message id: '' @ Error e]\<rparr>
      | Inr messageID \<Rightarrow>
          (case process s db msg of
             (Some e, db') \<Rightarrow> \<lparr>wr_db = db', wr_marked = True,
                                wr_errors = [''Error processing message: '' @ Error e]\<rparr>
           | (None, db') \<Rightarrow> \<lparr>wr_db = db', wr_marked = True, wr_errors = []\<rparr>))"

lemma process_error_keeps_db: "process s db m = (Some e, db') \<Longrightarrow> db' = db"
  by (auto simp: process_def Let_def split: sum.splits option.splits if_splits)

lemma worker_parsed_key_marks:
  "FromBytes (Key msg) = Inr k \<Longrightarrow> wr_marked (worker s db msg)"
  by (cases "process s db msg") (auto simp: worker_def split: option.splits)

lemma worker_failed_process_marks:
  assumes "FromBytes (Key msg) = Inr k" and "process s db msg = (Some e, db')"
  shows "worker s db msg = \<lparr>wr_db = db, wr_marked = True,
                             wr_errors = [''Error processing message: '' @ Error e]\<rparr>"
proof -
  from assms(2) have "db' = db" by (rule process_error_keeps_db)
  with assms show ?thesis by (simp add: worker_def)
qed

text \<open>
  C1. A result message is either persisted (inbox row and check result) and acknowledged,
  or neither persisted nor acknowledged. The worker does not do this: run on a well-formed
  message while the insert of the check result fails, \<open>process\<close> rolls back (no inbox row,
  no check result), the worker logs the error and then marks the message all the same.
\<close>

theorem worker_marks_failed_ingest:
  "worker \<lparr>cfg_Topic = ''result-stream'',
           unmarshal = (\<lambda>v. Some \<lparr>fa_TaskID = ''0123456789abcdef'', fa_Type = ''http'',
                                   fa_StartedAt = 5, fa_OK = True\<rparr>),
           sub_fails = (\<lambda>op. op = OpInsertCheckResult),
           sub_newUUID = ''fedcba9876543210'', sub_now = 7\<rparr>
          emptyDB \<lparr>Key = ''0123456789abcdef'', Value = ''{}''\<rparr>
   = \<lparr>wr_db = emptyDB, wr_marked = True,
      wr_errors = [''Error processing message: failed to insert checkResult: database error'']\<rparr>"
  by (simp add: worker_def process_def FromBytes_def InboxInsertMessage_def
                InsertCheckResult_def emptyDB_def  dbError_def Let_def)

lemma worker_unparsed_key:
  "FromBytes (Key msg) = Inl e \<Longrightarrow>
   worker s db msg = \<lparr>wr_db = db, wr_marked = False,
                       wr_errors = [''Error parsing message id: '' @ Error e]\<rparr>"
  by (simp add: worker_def)

text \<open>
  C7. When the key of a bus message does not parse as a 16-byte UUID, the subscriber logs
  the error, skips the message without any state change, and acknowledges the offset. The
  worker does not acknowledge: run on a message with the 3-byte key \<open>abc\<close>, it logs the
  parse error and leaves the loop turn with \<open>continue\<close>, before \<open>msg.Mark()\<close>; the
  database is unchanged and the message is not marked.
\<close>

theorem worker_bad_key_not_marked:
  "worker \<lparr>cfg_Topic = ''result-stream'', unmarshal = (\<lambda>v. None),
           sub_fails = (\<lambda>op. False), sub_newUUID = ''fedcba9876543210'', sub_now = 7\<rparr>
          emptyDB \<lparr>Key = ''abc'', Value = ''{}''\<rparr>
   = \<lparr>wr_db = emptyDB, wr_marked = False,
      wr_errors = [''Error parsing message id: invalid UUID (got 3 bytes)'']\<rparr>"
  by (simp add: worker_def FromBytes_def Itoa_def showNat.simps digitChar_def)

section \<open>Result stream (handler StreamResults)\<close>

record CheckResultResponse =
  rr_RequestID :: uuid
  rr_AgentID :: uuid
  rr_AgentRegion :: string
  rr_Type :: string
  rr_Status :: string
  rr_StartedAt :: instant
  rr_FinishedAt :: instant
  rr_Payload :: bytes

record wsMessage =
  ws_Type :: string
  ws_Data :: "CheckResultResponse list option"
  ws_Err :: string

fun allTerminal_loop :: "CheckResultResponse list \<Rightarrow> bool" where
  "allTerminal_loop [] = True"
| "allTerminal_loop (it # rest) =
     (if rr_Status it = ''SUCCESS'' \<or> rr_Status it = ''FAILED''
         \<or> rr_Status it = ''TIMEOUT'' \<or> rr_Status it = ''CANCELLED''
      then allTerminal_loop rest else False)"

definition allTerminal :: "CheckResultResponse list \<Rightarrow> bool" where
  "allTerminal list = (if length list = 0 then False else allTerminal_loop list)"

text \<open>
  The loop of \<open>StreamResults\<close> after the upgrade, over the events it selects on: the
  request context being done, or a tick of the one-second ticker together with what
  \<open>GetResultsByRequestID\<close> answers at that tick. \<open>hash\<close> is the hex SHA-256 of the JSON
  of the list, \<open>wr\<close> says whether writing a frame to the socket succeeds. The result is
  the frames written and whether the handler has returned (closing the socket).
\<close>

datatype event = CtxDone | Tick "error + CheckResultResponse list"

fun streamLoop ::
  "(CheckResultResponse list \<Rightarrow> string) \<Rightarrow> (wsMessage \<Rightarrow> bool) \<Rightarrow> string \<Rightarrow> event list
   \<Rightarrow> wsMessage list \<times> bool" where
  "streamLoop hash wr lastHash [] = ([], False)"
| "streamLoop hash wr lastHash (CtxDone # evs) =
     (let done = \<lparr>ws_Type = ''done'', ws_Data = None, ws_Err = []\<rparr>
      in (if wr done then [done] else [], True))"
| "streamLoop hash wr lastHash (Tick (Inl err) # evs) =
     (let msg = \<lparr>ws_Type = ''error'', ws_Data = None, ws_Err = Error err\<rparr>
      in if \<not> wr msg then ([], True)
         else (case streamLoop hash wr lastHash evs of (out, closed) \<Rightarrow> (msg # out, closed)))"
| "streamLoop hash wr lastHash (Tick (Inr results) # evs) =
     (let newHash = hash results;
          snapshot = \<lparr>ws_Type = ''snapshot'', ws_Data = Some results, ws_Err = []\<rparr>;
          update = \<lparr>ws_Type = ''update'', ws_Data = Some results, ws_Err = []\<rparr>;
          done = \<lparr>ws_Type = ''done'', ws_Data = Some results, ws_Err = []\<rparr>;
          frame = (if lastHash = [] then [snapshot]
                   else if newHash \<noteq> lastHash then [update] else [])
      in if frame \<noteq> [] \<and> \<not> wr (hd frame) then ([], True)
         else if allTerminal results
           then (frame @ (if wr done then [done] else []), True)
         else (case streamLoop hash wr (if frame \<noteq> [] then newHash else lastHash) evs of
                 (out, closed) \<Rightarrow> (frame @ out, closed)))"

lemma allTerminal_loop_iff:
  "allTerminal_loop list \<longleftrightarrow>
     list_all (\<lambda>it. rr_Status it = ''SUCCESS'' \<or> rr_Status it = ''FAILED''
                   \<or> rr_Status it = ''TIMEOUT'' \<or> rr_Status it = ''CANCELLED'') list"
  by (induction list) simp_all

lemma allTerminal_iff:
  "allTerminal list \<longleftrightarrow>
     list \<noteq> [] \<and> list_all (\<lambda>it. rr_Status it = ''SUCCESS'' \<or> rr_Status it = ''FAILED''
                                  \<or> rr_Status it = ''TIMEOUT'' \<or> rr_Status it = ''CANCELLED'') list"
  by (simp add: allTerminal_def allTerminal_loop_iff)

text \<open>
  C2. The stream sends the done frame and closes when the list is non-empty and every
  status is terminal, DONE included. \<open>allTerminal\<close> does not count DONE, the status the
  inbox subscriber stores for a successful check (\<open>resultStatus True\<close>): on a list whose
  only item is DONE the first tick sends the snapshot, no done frame, and the stream
  stays open.
\<close>

theorem allTerminal_rejects_DONE:
  "resultStatus True = ''DONE''
   \<and> allTerminal [\<lparr>rr_RequestID = ''0123456789abcdef'', rr_AgentID = ''fedcba9876543210'',
                    rr_AgentRegion = ''EU'', rr_Type = ''http'',
                    rr_Status = resultStatus True,
                    rr_StartedAt = 5, rr_FinishedAt = 7, rr_Payload = ''{}''\<rparr>] = False
   \<and> streamLoop (\<lambda>l. ''3a7b'') (\<lambda>m. True) []
        [Tick (Inr [\<lparr>rr_RequestID = ''0123456789abcdef'', rr_AgentID = ''fedcba9876543210'',
                      rr_AgentRegion = ''EU'', rr_Type = ''http'',
                      rr_Status = resultStatus True,
                      rr_StartedAt = 5, rr_FinishedAt = 7, rr_Payload = ''{}''\<rparr>])]
      = ([\<lparr>ws_Type = ''snapshot'',
            ws_Data = Some [\<lparr>rr_RequestID = ''0123456789abcdef'',
                             rr_AgentID = ''fedcba9876543210'',
                             rr_AgentRegion = ''EU'', rr_Type = ''http'', rr_Status = ''DONE'',
                             rr_StartedAt = 5, rr_FinishedAt = 7, rr_Payload = ''{}''\<rparr>],
            ws_Err = []\<rparr>], False)"
  by (simp add: allTerminal_def resultStatus_def Let_def)

section \<open>Agent: parameter normalisation (package service)\<close>

text \<open>
  The string functions of the standard library that \<open>parseRange2Int\<close> uses, on ASCII
  text: \<open>strings.TrimSpace\<close> (white space is tab, line feed, vertical tab, form feed,
  carriage return and space), \<open>TrimPrefix\<close>, \<open>TrimSuffix\<close>, \<open>Split\<close> on a one-byte
  separator, and \<open>strconv.Atoi\<close> (an optional sign, then decimal digits only, the value
  within 64 bits).
\<close>

definition isSpace :: "char \<Rightarrow> bool" where
  "isSpace c \<longleftrightarrow> c \<in> set [CHR 0x09, CHR 0x0A, CHR 0x0B, CHR 0x0C, CHR 0x0D, CHR '' '']"

definition TrimSpace :: "string \<Rightarrow> string" where
  "TrimSpace s = rev (dropWhile isSpace (rev (dropWhile isSpace s)))"

definition TrimPrefix :: "string \<Rightarrow> string \<Rightarrow> string" where
  "TrimPrefix s prefix =
     (if take (length prefix) s = prefix then drop (length prefix) s else s)"

definition TrimSuffix :: "string \<Rightarrow> string \<Rightarrow> string" where
  "TrimSuffix s suffix =
     (if length suffix \<le> length s \<and> drop (length s - length suffix) s = suffix
      then take (length s - length suffix) s else s)"

fun Split :: "string \<Rightarrow> char \<Rightarrow> string list" where
  "Split [] sep = [[]]"
| "Split (c # cs) sep =
     (if c = sep then [] # Split cs sep
      else (case Split cs sep of [] \<Rightarrow> [[c]] | p # ps \<Rightarrow> (c # p) # ps))"

definition digitOf :: "char \<Rightarrow> nat option" where
  "digitOf c = map_of (zip ''0123456789'' [0, 1, 2, 3, 4, 5, 6, 7, 8, 9]) c"

fun parseDigits :: "nat \<Rightarrow> string \<Rightarrow> nat option" where
  "parseDigits acc [] = Some acc"
| "parseDigits acc (c # cs) =
     (case digitOf c of None \<Rightarrow> None | Some d \<Rightarrow> parseDigits (10 * acc + d) cs)"

definition inInt64 :: "int \<Rightarrow> bool" where
  "inInt64 v \<longleftrightarrow> - (2 ^ 63) \<le> v \<and> v < 2 ^ 63"

definition Atoi :: "string \<Rightarrow> error + int" where
  "Atoi s =
     (let neg = (s \<noteq> [] \<and> hd s = CHR ''-'');
          ds = (if s \<noteq> [] \<and> (hd s = CHR ''-'' \<or> hd s = CHR ''+'') then tl s else s)
      in if ds = [] then Inl (Err ''strconv.Atoi: invalid syntax'')
         else (case parseDigits 0 ds of
                 None \<Rightarrow> Inl (Err ''strconv.Atoi: invalid syntax'')
               | Some n \<Rightarrow>
                   (let v = (if neg then - int n else int n)
                    in if inInt64 v then Inr v
                       else Inl (Err ''strconv.Atoi: value out of range''))))"

definition parseRange2Int :: "string \<Rightarrow> error + (int \<times> int)" where
  "parseRange2Int s0 =
     (let s = TrimSuffix (TrimPrefix (TrimSpace s0) ''['') '']'';
          parts = Split s CHR '',''
      in if length parts \<noteq> 2 then Inl (Err ''range must be like [a,b]'')
         else (case Atoi (TrimSpace (parts ! 0)) of
                 Inl e \<Rightarrow> Inl e
               | Inr a \<Rightarrow>
                   (case Atoi (TrimSpace (parts ! 1)) of
                      Inl e \<Rightarrow> Inl e
                    | Inr b \<Rightarrow> Inr (a, b))))"

text \<open>The string form of a range, as scenario 3 of the specification writes it.\<close>

definition fmtRange :: "int \<Rightarrow> int \<Rightarrow> string" where
  "fmtRange a b = ''['' @ Itoa a @ '','' @ Itoa b @ '']''"

text \<open>
  The parameter structs of the checks. \<open>decodeLoose\<close> marshals the parameter map and
  unmarshals it into the struct: a key that is absent or null leaves the field at its zero
  value, a value of the wrong JSON type leaves it at zero too and makes the call return an
  error, keys that are no field of the struct are ignored. Each field decoder returns the
  value and whether it decoded. Keys are matched as written.
\<close>

record HTTPParams =
  hp_Scheme :: string
  hp_Path :: string
  hp_Headers :: "(string \<times> string) list"
  hp_ExpectedStatusRange :: "int \<times> int"
  hp_FollowRedirects :: bool
  hp_MaxBodyBytes :: int

record PingParams =
  pp_Count :: int
  pp_IntervalMs :: int

record TCPParams =
  tp_Port :: int
  tp_ConnectTimeoutMs :: int

record TracerouteParams =
  tr_Mode :: string
  tr_Port :: int
  tr_MaxHops :: int
  tr_Paris :: bool

record DNSParams =
  dp_Records :: "string list"
  dp_Resolver :: string

definition decInt :: "jvalue option \<Rightarrow> int \<times> bool" where
  "decInt v =
     (case v of
        None \<Rightarrow> (0, True)
      | Some JNull \<Rightarrow> (0, True)
      | Some (JNumber n) \<Rightarrow> (if inInt64 n then (n, True) else (0, False))
      | Some _ \<Rightarrow> (0, False))"

definition decString :: "jvalue option \<Rightarrow> string \<times> bool" where
  "decString v =
     (case v of
        None \<Rightarrow> ([], True)
      | Some JNull \<Rightarrow> ([], True)
      | Some (JString s) \<Rightarrow> (s, True)
      | Some _ \<Rightarrow> ([], False))"

definition decBool :: "jvalue option \<Rightarrow> bool \<times> bool" where
  "decBool v =
     (case v of
        None \<Rightarrow> (False, True)
      | Some JNull \<Rightarrow> (False, True)
      | Some (JBool b) \<Rightarrow> (b, True)
      | Some _ \<Rightarrow> (False, False))"

definition elemAt :: "jvalue list \<Rightarrow> nat \<Rightarrow> jvalue option" where
  "elemAt xs i = (if i < length xs then Some (xs ! i) else None)"

definition decRange :: "jvalue option \<Rightarrow> (int \<times> int) \<times> bool" where
  "decRange v =
     (case v of
        None \<Rightarrow> ((0, 0), True)
      | Some JNull \<Rightarrow> ((0, 0), True)
      | Some (JArray xs) \<Rightarrow>
          ((fst (decInt (elemAt xs 0)), fst (decInt (elemAt xs 1))),
           snd (decInt (elemAt xs 0)) \<and> snd (decInt (elemAt xs 1)))
      | Some _ \<Rightarrow> ((0, 0), False))"

definition decStrings :: "jvalue option \<Rightarrow> string list \<times> bool" where
  "decStrings v =
     (case v of
        None \<Rightarrow> ([], True)
      | Some JNull \<Rightarrow> ([], True)
      | Some (JArray xs) \<Rightarrow>
          (map (\<lambda>x. fst (decString (Some x))) xs, list_all (\<lambda>x. snd (decString (Some x))) xs)
      | Some _ \<Rightarrow> ([], False))"

definition decHeaders :: "jvalue option \<Rightarrow> (string \<times> string) list \<times> bool" where
  "decHeaders v =
     (case v of
        None \<Rightarrow> ([], True)
      | Some JNull \<Rightarrow> ([], True)
      | Some (JObject kvs) \<Rightarrow>
          (map (\<lambda>(k, x). (k, fst (decString (Some x)))) kvs,
           list_all (\<lambda>(k, x). snd (decString (Some x))) kvs)
      | Some _ \<Rightarrow> ([], False))"

definition decodeError :: "bool \<Rightarrow> error option" where
  "decodeError ok = (if ok then None else Some (Err ''json: cannot unmarshal value into Go struct field''))"

definition decodeHTTP :: "params \<Rightarrow> error option \<times> HTTPParams" where
  "decodeHTTP m =
     (decodeError (snd (decString (m ''scheme'')) \<and> snd (decString (m ''path''))
                   \<and> snd (decHeaders (m ''headers''))
                   \<and> snd (decRange (m ''expectedStatusRange''))
                   \<and> snd (decBool (m ''followRedirects''))
                   \<and> snd (decInt (m ''maxBodyBytes''))),
      \<lparr>hp_Scheme = fst (decString (m ''scheme'')), hp_Path = fst (decString (m ''path'')),
       hp_Headers = fst (decHeaders (m ''headers'')),
       hp_ExpectedStatusRange = fst (decRange (m ''expectedStatusRange'')),
       hp_FollowRedirects = fst (decBool (m ''followRedirects'')),
       hp_MaxBodyBytes = fst (decInt (m ''maxBodyBytes''))\<rparr>)"

definition decodePing :: "params \<Rightarrow> error option \<times> PingParams" where
  "decodePing m =
     (decodeError (snd (decInt (m ''count'')) \<and> snd (decInt (m ''intervalMs''))),
      \<lparr>pp_Count = fst (decInt (m ''count'')), pp_IntervalMs = fst (decInt (m ''intervalMs''))\<rparr>)"

definition decodeTCP :: "params \<Rightarrow> error option \<times> TCPParams" where
  "decodeTCP m =
     (decodeError (snd (decInt (m ''port'')) \<and> snd (decInt (m ''connectTimeoutMs''))),
      \<lparr>tp_Port = fst (decInt (m ''port'')),
       tp_ConnectTimeoutMs = fst (decInt (m ''connectTimeoutMs''))\<rparr>)"

definition decodeTraceroute :: "params \<Rightarrow> error option \<times> TracerouteParams" where
  "decodeTraceroute m =
     (decodeError (snd (decString (m ''mode'')) \<and> snd (decInt (m ''port''))
                   \<and> snd (decInt (m ''maxHops'')) \<and> snd (decBool (m ''paris''))),
      \<lparr>tr_Mode = fst (decString (m ''mode'')), tr_Port = fst (decInt (m ''port'')),
       tr_MaxHops = fst (decInt (m ''maxHops'')), tr_Paris = fst (decBool (m ''paris''))\<rparr>)"

definition decodeDNS :: "params \<Rightarrow> error option \<times> DNSParams" where
  "decodeDNS m =
     (decodeError (snd (decStrings (m ''records'')) \<and> snd (decString (m ''resolver''))),
      \<lparr>dp_Records = fst (decStrings (m ''records'')),
       dp_Resolver = fst (decString (m ''resolver''))\<rparr>)"

text \<open>
  \<open>mustToMap\<close>: the struct as a parameter map again, by its JSON tags (\<open>headers\<close> and
  \<open>resolver\<close> are \<open>omitempty\<close>; a nil slice of records is null).
\<close>

definition mustToMapHTTP :: "HTTPParams \<Rightarrow> params" where
  "mustToMapHTTP hp =
     map_of ([(''scheme'', JString (hp_Scheme hp)), (''path'', JString (hp_Path hp))]
             @ (if hp_Headers hp = [] then []
                else [(''headers'', JObject (map (\<lambda>(k, v). (k, JString v)) (hp_Headers hp)))])
             @ [(''expectedStatusRange'',
                   JArray [JNumber (fst (hp_ExpectedStatusRange hp)),
                           JNumber (snd (hp_ExpectedStatusRange hp))]),
                (''followRedirects'', JBool (hp_FollowRedirects hp)),
                (''maxBodyBytes'', JNumber (hp_MaxBodyBytes hp))])"

definition mustToMapPing :: "PingParams \<Rightarrow> params" where
  "mustToMapPing pp =
     map_of [(''count'', JNumber (pp_Count pp)), (''intervalMs'', JNumber (pp_IntervalMs pp))]"

definition mustToMapTCP :: "TCPParams \<Rightarrow> params" where
  "mustToMapTCP tp =
     map_of [(''port'', JNumber (tp_Port tp)),
             (''connectTimeoutMs'', JNumber (tp_ConnectTimeoutMs tp))]"

definition mustToMapTraceroute :: "TracerouteParams \<Rightarrow> params" where
  "mustToMapTraceroute tp =
     map_of [(''mode'', JString (tr_Mode tp)), (''port'', JNumber (tr_Port tp)),
             (''maxHops'', JNumber (tr_MaxHops tp)), (''paris'', JBool (tr_Paris tp))]"

definition mustToMapDNS :: "DNSParams \<Rightarrow> params" where
  "mustToMapDNS dp =
     map_of ([(''records'', JArray (map JString (dp_Records dp)))]
             @ (if dp_Resolver dp = [] then [] else [(''resolver'', JString (dp_Resolver dp))]))"

text \<open>
  The JSON parser where the agent applies it to text: the task message, and the string
  forms of \<open>headers\<close> and \<open>records\<close> (\<open>None\<close> when \<open>json.Unmarshal\<close> fails).
\<close>

record JSONLib =
  unmarshalTask :: "bytes \<Rightarrow> TaskMessage option"
  unmarshalHeaders :: "string \<Rightarrow> (string \<times> string) list option"
  unmarshalStrings :: "string \<Rightarrow> string list option"

definition toInt :: "jvalue \<Rightarrow> int" where
  "toInt v = (case v of JNumber t \<Rightarrow> t | _ \<Rightarrow> 0)"

definition rangeValue :: "int \<Rightarrow> int \<Rightarrow> jvalue" where
  "rangeValue a b = JArray [JNumber a, JNumber b]"

definition readParams :: "params option \<Rightarrow> params" where
  "readParams ps = (case ps of None \<Rightarrow> Map.empty | Some m \<Rightarrow> m)"

definition writeParam :: "params option \<Rightarrow> string \<Rightarrow> jvalue \<Rightarrow> error + params" where
  "writeParam ps k v =
     (case ps of
        None \<Rightarrow> Inl (Panic ''assignment to entry in nil map'')
      | Some m \<Rightarrow> Inr (m(k \<mapsto> v)))"

definition normalizeRange :: "params option \<Rightarrow> error + params" where
  "normalizeRange ps =
     (case readParams ps ''expectedStatusRange'' of
        Some (JString vv) \<Rightarrow>
          (case parseRange2Int vv of
             Inl err \<Rightarrow> Inl (wrap ''expectedStatusRange'' err)
           | Inr r \<Rightarrow> writeParam ps ''expectedStatusRange'' (rangeValue (fst r) (snd r)))
      | Some (JArray vv) \<Rightarrow>
          (if length vv \<noteq> 2 then Inl (Err ''expectedStatusRange must have 2 elements'')
           else writeParam ps ''expectedStatusRange''
                  (rangeValue (toInt (vv ! 0)) (toInt (vv ! 1))))
      | Some _ \<Rightarrow> Inr (readParams ps)
      | None \<Rightarrow> writeParam ps ''expectedStatusRange'' (rangeValue 200 299))"

definition normalizeHeaders :: "JSONLib \<Rightarrow> params \<Rightarrow> params" where
  "normalizeHeaders lib ps =
     (case ps ''headers'' of
        Some (JString s) \<Rightarrow>
          (let str = TrimSpace s
           in if str = [] then ps(''headers'' := None)
              else if take 1 str = ''{'' then
                (case unmarshalHeaders lib str of
                   Some m \<Rightarrow> ps(''headers'' \<mapsto> JObject (map (\<lambda>(k, v). (k, JString v)) m))
                 | None \<Rightarrow> ps(''headers'' := None))
              else ps(''headers'' := None))
      | _ \<Rightarrow> ps)"

definition httpDefaults :: "HTTPParams \<Rightarrow> HTTPParams" where
  "httpDefaults hp =
     hp\<lparr>hp_Scheme := (if hp_Scheme hp = [] then ''https'' else hp_Scheme hp),
        hp_Path := (if hp_Path hp = [] then ''/'' else hp_Path hp),
        hp_ExpectedStatusRange :=
          (if hp_ExpectedStatusRange hp = (0, 0) then (200, 299) else hp_ExpectedStatusRange hp)\<rparr>"

definition normalizeRecords :: "JSONLib \<Rightarrow> params \<Rightarrow> params" where
  "normalizeRecords lib ps =
     (case ps ''records'' of
        Some (JString s) \<Rightarrow>
          (case unmarshalStrings lib s of
             Some arr \<Rightarrow> ps(''records'' \<mapsto> JArray (map JString arr))
           | None \<Rightarrow> ps)
      | _ \<Rightarrow> ps)"

text \<open>
  The \<open>%q\<close> verb of \<open>fmt\<close> on a string is \<open>strconv.Quote\<close>: the text between double quotes,
  with the double quote and the backslash escaped by a backslash, the control characters
  BEL, BS, FF, LF, CR, HT and VT written as \<open>\a \b \f \n \r \t \v\<close>, every other byte
  below the space and the byte \<open>0x7F\<close> written as \<open>\x\<close> with two lower-case hexadecimal
  digits, and the printable ASCII characters written as they are. Bytes from \<open>0x80\<close> on
  are written as they are, which is what \<open>strconv.Quote\<close> does for the bytes of a
  printable UTF-8 character.
\<close>

definition quoteByte :: "char \<Rightarrow> string" where
  "quoteByte c =
     (if c = CHR 0x22 \<or> c = CHR 0x5C then [CHR 0x5C, c]
      else if c = CHR 0x07 then [CHR 0x5C, CHR ''a'']
      else if c = CHR 0x08 then [CHR 0x5C, CHR ''b'']
      else if c = CHR 0x0C then [CHR 0x5C, CHR ''f'']
      else if c = CHR 0x0A then [CHR 0x5C, CHR ''n'']
      else if c = CHR 0x0D then [CHR 0x5C, CHR ''r'']
      else if c = CHR 0x09 then [CHR 0x5C, CHR ''t'']
      else if c = CHR 0x0B then [CHR 0x5C, CHR ''v'']
      else if (of_char c :: nat) < 0x20 \<or> c = CHR 0x7F
        then [CHR 0x5C, CHR ''x'', lowerhex (of_char c div 16), lowerhex (of_char c mod 16)]
      else [c])"

definition quote :: "string \<Rightarrow> string" where
  "quote s = [CHR 0x22] @ concat (map quoteByte s) @ [CHR 0x22]"

definition normalizeCheckParams :: "JSONLib \<Rightarrow> CheckRequest \<Rightarrow> error + CheckRequest" where
  "normalizeCheckParams lib c =
     (let kind = ToLower (Type c) in
      if kind = ''http'' then
        (case normalizeRange (Params c) of
           Inl err \<Rightarrow> Inl err
         | Inr ps1 \<Rightarrow>
             (case decodeHTTP (normalizeHeaders lib ps1) of
                (Some err, hp) \<Rightarrow> Inl err
              | (None, hp) \<Rightarrow> Inr (c\<lparr>Params := Some (mustToMapHTTP (httpDefaults hp))\<rparr>)))
      else if kind = ''ping'' then
        (case decodePing (readParams (Params c)) of
           (Some err, pp) \<Rightarrow> Inl err
         | (None, pp) \<Rightarrow>
             Inr (c\<lparr>Params := Some (mustToMapPing
                    (pp\<lparr>pp_Count := (if pp_Count pp \<le> 0 then 4 else pp_Count pp),
                        pp_IntervalMs := (if pp_IntervalMs pp \<le> 0 then 1000
                                          else pp_IntervalMs pp)\<rparr>))\<rparr>))
      else if kind = ''tcp'' then
        (case decodeTCP (readParams (Params c)) of
           (Some err, tp) \<Rightarrow> Inl err
         | (None, tp) \<Rightarrow>
             Inr (c\<lparr>Params := Some (mustToMapTCP
                    (tp\<lparr>tp_ConnectTimeoutMs := (if tp_ConnectTimeoutMs tp \<le> 0 then 3000
                                                else tp_ConnectTimeoutMs tp)\<rparr>))\<rparr>))
      else if kind = ''traceroute'' then
        (case decodeTraceroute (readParams (Params c)) of
           (Some err, tp) \<Rightarrow> Inl err
         | (None, tp) \<Rightarrow>
             Inr (c\<lparr>Params := Some (mustToMapTraceroute
                    (tp\<lparr>tr_MaxHops := (if tr_MaxHops tp \<le> 0 then 30 else tr_MaxHops tp),
                        tr_Mode := (if tr_Mode tp = [] then ''udp'' else tr_Mode tp)\<rparr>))\<rparr>))
      else if kind = ''dns'' then
        (case decodeDNS (normalizeRecords lib (readParams (Params c))) of
           (Some err, dp) \<Rightarrow> Inl err
         | (None, dp) \<Rightarrow>
             Inr (c\<lparr>Params := Some (mustToMapDNS
                    (dp\<lparr>dp_Records := (if length (dp_Records dp) = 0 then [''A'']
                                        else dp_Records dp)\<rparr>))\<rparr>))
      else Inl (Err (''unsupported check type '' @ quote (Type c))))"

fun normalizeChecks :: "JSONLib \<Rightarrow> nat \<Rightarrow> CheckRequest list \<Rightarrow> error + CheckRequest list" where
  "normalizeChecks lib i [] = Inr []"
| "normalizeChecks lib i (c # cs) =
     (case normalizeCheckParams lib c of
        Inl err \<Rightarrow> Inl (wrap (''check '' @ Itoa (int i) @ '' ('' @ Type c @ '')'') err)
      | Inr c' \<Rightarrow>
          (case normalizeChecks lib (Suc i) cs of
             Inl err \<Rightarrow> Inl err
           | Inr cs' \<Rightarrow> Inr (c' # cs')))"

definition ParseTask :: "JSONLib \<Rightarrow> bytes \<Rightarrow> error + TaskMessage" where
  "ParseTask lib data =
     (case unmarshalTask lib data of
        None \<Rightarrow> Inl (Err ''bad task json'')
      | Some t \<Rightarrow>
          (case normalizeChecks lib 0 (tm_Checks t) of
             Inl err \<Rightarrow> Inl err
           | Inr checks \<Rightarrow> Inr (t\<lparr>tm_Checks := checks\<rparr>)))"

section \<open>Agent: running the checks\<close>

text \<open>
  The result envelope (\<open>model.CheckResult\<close> of the agent). \<open>Error\<close> and \<open>Payload\<close> are
  \<open>omitempty\<close>: an empty error text and an absent payload are left out of the JSON.
\<close>

record ResultEnvelope =
  re_TaskID :: uuid
  re_CheckIndex :: nat
  re_Type :: string
  re_Target :: string
  re_StartedAt :: instant
  re_DurationMs :: int
  re_OK :: bool
  re_Error :: string
  re_Payload :: "jvalue option"

text \<open>
  What the network and the operating system answer to one check: the outcome of the HTTP
  request, of the TCP dial, of the resolver calls, of the ping and traceroute commands
  (with the command line as \<open>Cmd.String\<close> renders it and the hops already geolocated),
  how \<open>net.ParseIP\<close> classifies an address, the clock readings, and whether the overall
  deadline of the task had passed when the check's goroutine started.
\<close>

datatype http_outcome =
    HTTPRequestError error
  | HTTPDoError error
  | HTTPResponse int string int

datatype tcp_outcome = TCPDialError error | TCPConnected int

datatype cmd_error = ExitError int string | OtherError string

datatype ip_family = IPv4 | IPv6

record cmd_outcome =
  co_command :: string
  co_output :: string
  co_err :: "cmd_error option"

record World =
  w_http :: http_outcome
  w_tcp :: tcp_outcome
  w_lookupHost :: "error + string list"
  w_lookupMX :: "error + (string \<times> nat) list"
  w_parseIP :: "string \<Rightarrow> ip_family option"
  w_ping :: cmd_outcome
  w_traceroute :: cmd_outcome
  w_hops :: "jvalue list"
  w_start :: instant
  w_durationMs :: int
  w_ctxDone :: bool

definition makeResTemplate ::
  "uuid \<Rightarrow> nat \<Rightarrow> string \<Rightarrow> string \<Rightarrow> instant \<Rightarrow> int \<Rightarrow> bool \<Rightarrow> error option \<Rightarrow> jvalue option
   \<Rightarrow> ResultEnvelope" where
  "makeResTemplate taskID idx typ target start duration ok err payload =
     \<lparr>re_TaskID = taskID, re_CheckIndex = idx, re_Type = ToLower typ, re_Target = target,
      re_StartedAt = start, re_DurationMs = duration, re_OK = ok,
      re_Error = (case err of None \<Rightarrow> [] | Some e \<Rightarrow> Error e),
      re_Payload = payload\<rparr>"

definition nonEmpty :: "string \<Rightarrow> string \<Rightarrow> string" where
  "nonEmpty s def = (if TrimSpace s = [] then def else s)"

definition runHTTP ::
  "string \<Rightarrow> HTTPParams \<Rightarrow> World
   \<Rightarrow> (bool \<Rightarrow> error option \<Rightarrow> jvalue option \<Rightarrow> ResultEnvelope) \<Rightarrow> ResultEnvelope" where
  "runHTTP target p w makeRes =
     (let url = nonEmpty (hp_Scheme p) ''https'' @ ''://'' @ target @ nonEmpty (hp_Path p) ''/''
      in case w_http w of
           HTTPRequestError err \<Rightarrow> makeRes False (Some err) None
         | HTTPDoError err \<Rightarrow> makeRes False (Some err) (Some (JObject [(''url'', JString url)]))
         | HTTPResponse status finalURL latencyMs \<Rightarrow>
             (let ok = (fst (hp_ExpectedStatusRange p) \<le> status
                        \<and> status \<le> snd (hp_ExpectedStatusRange p))
              in makeRes ok None
                   (Some (JObject [(''url'', JString url), (''status'', JNumber status),
                                   (''latencyMs'', JNumber latencyMs),
                                   (''finalURL'', JString finalURL),
                                   (''limitBytes'', JNumber (hp_MaxBodyBytes p))]))))"

definition JoinHostPort :: "string \<Rightarrow> string \<Rightarrow> string" where
  "JoinHostPort host port =
     (if CHR '':'' \<in> set host \<or> CHR ''%'' \<in> set host then ''['' @ host @ '']:'' @ port
      else host @ '':'' @ port)"

definition runTCP ::
  "string \<Rightarrow> TCPParams \<Rightarrow> World
   \<Rightarrow> (bool \<Rightarrow> error option \<Rightarrow> jvalue option \<Rightarrow> ResultEnvelope) \<Rightarrow> ResultEnvelope" where
  "runTCP target p w makeRes =
     (let addr = JoinHostPort target (Itoa (tp_Port p))
      in case w_tcp w of
           TCPDialError err \<Rightarrow> makeRes False (Some err) (Some (JObject [(''addr'', JString addr)]))
         | TCPConnected handshakeMs \<Rightarrow>
             makeRes True None
               (Some (JObject [(''addr'', JString addr), (''handshake'', JNumber handshakeMs)])))"

text \<open>
  \<open>runDNS\<close>: the loop over the requested records keeps the result map (as a list of
  entries, a later entry for a key replacing the earlier one) and the flag \<open>haveError\<close>.
  A nil slice of addresses is the JSON null.
\<close>

definition setKey :: "string \<Rightarrow> jvalue \<Rightarrow> (string \<times> jvalue) list \<Rightarrow> (string \<times> jvalue) list" where
  "setKey k v results = filter (\<lambda>kv. fst kv \<noteq> k) results @ [(k, v)]"

definition stringsValue :: "string list \<Rightarrow> jvalue" where
  "stringsValue xs = (if xs = [] then JNull else JArray (map JString xs))"

definition dnsRecord ::
  "World \<Rightarrow> string \<Rightarrow> (string \<times> jvalue) list \<times> bool \<Rightarrow> (string \<times> jvalue) list \<times> bool" where
  "dnsRecord w rr acc =
     (let results = fst acc; haveError = snd acc; u = ToUpper rr in
      if u = ''A'' then
        (case w_lookupHost w of
           Inl err \<Rightarrow> (setKey ''A_error'' (JString (Error err)) results, True)
         | Inr ips \<Rightarrow>
             (setKey ''A'' (stringsValue (filter (\<lambda>ip. w_parseIP w ip = Some IPv4) ips)) results,
              haveError))
      else if u = ''AAAA'' then
        (case w_lookupHost w of
           Inl err \<Rightarrow> (setKey ''AAAA_error'' (JString (Error err)) results, True)
         | Inr ips \<Rightarrow>
             (setKey ''AAAA'' (stringsValue (filter (\<lambda>ip. w_parseIP w ip = Some IPv6) ips)) results,
              haveError))
      else if u = ''MX'' then
        (case w_lookupMX w of
           Inl err \<Rightarrow> (setKey ''MX_error'' (JString (Error err)) results, True)
         | Inr mx \<Rightarrow>
             (setKey ''MX''
                (JArray (map (\<lambda>(host, pref). JObject [(''host'', JString host),
                                                       (''pref'', JNumber (int pref))]) mx))
                results,
              haveError))
      else (setKey (u @ ''_error'') (JString ''unsupported record type'') results, True))"

definition runDNS ::
  "string \<Rightarrow> DNSParams \<Rightarrow> World
   \<Rightarrow> (bool \<Rightarrow> error option \<Rightarrow> jvalue option \<Rightarrow> ResultEnvelope) \<Rightarrow> ResultEnvelope" where
  "runDNS target p w makeRes =
     (let acc = foldl (\<lambda>acc rr. dnsRecord w rr acc) ([], False) (dp_Records p)
      in makeRes (\<not> snd acc) None (Some (JObject (fst acc))))"

definition tail :: "string \<Rightarrow> nat \<Rightarrow> string" where
  "tail s maxLen = (if length s \<le> maxLen then s else drop (length s - maxLen) s)"

definition exitCode :: "cmd_error option \<Rightarrow> int" where
  "exitCode err =
     (case err of None \<Rightarrow> 0 | Some (ExitError code m) \<Rightarrow> code | Some (OtherError m) \<Rightarrow> - 1)"

definition cmdError :: "cmd_error \<Rightarrow> error" where
  "cmdError e = (case e of ExitError code m \<Rightarrow> Err m | OtherError m \<Rightarrow> Err m)"

definition runPing ::
  "string \<Rightarrow> PingParams \<Rightarrow> World
   \<Rightarrow> (bool \<Rightarrow> error option \<Rightarrow> jvalue option \<Rightarrow> ResultEnvelope) \<Rightarrow> ResultEnvelope" where
  "runPing target p w makeRes =
     (let c = w_ping w in
      case co_err c of
        Some err \<Rightarrow>
          makeRes False (Some (cmdError err))
            (Some (JObject [(''command'', JString (co_command c)),
                            (''output'', JString (tail (co_output c) 4096)),
                            (''exitCode'', JNumber (exitCode (Some err)))]))
      | None \<Rightarrow>
          makeRes True None
            (Some (JObject [(''command'', JString (co_command c)),
                            (''output'', JString (tail (co_output c) 4096)),
                            (''exitCode'', JNumber 0)])))"

definition runTraceroute ::
  "string \<Rightarrow> TracerouteParams \<Rightarrow> World
   \<Rightarrow> (bool \<Rightarrow> error option \<Rightarrow> jvalue option \<Rightarrow> ResultEnvelope) \<Rightarrow> ResultEnvelope" where
  "runTraceroute target p w makeRes =
     (let c = w_traceroute w;
          payload = JObject [(''command'', JString (co_command c)),
                             (''output'', JString (tail (co_output c) 8192)),
                             (''exitCode'', JNumber (exitCode (co_err c))),
                             (''hops'', JArray (w_hops w))];
          ok = (co_err c = None);
          res = makeRes ok (map_option cmdError (co_err c)) (Some payload)
      in res\<lparr>re_DurationMs := w_durationMs w\<rparr>)"

definition runOne :: "World \<Rightarrow> TaskMessage \<Rightarrow> nat \<Rightarrow> CheckRequest \<Rightarrow> ResultEnvelope" where
  "runOne w task idx chk =
     (let makeRes = makeResTemplate (tm_ID task) idx (Type chk) (tm_Target task)
                      (w_start w) (w_durationMs w);
          kind = ToLower (Type chk);
          ps = readParams (Params chk)
      in if kind = ''http'' then runHTTP (tm_Target task) (snd (decodeHTTP ps)) w makeRes
         else if kind = ''ping'' then runPing (tm_Target task) (snd (decodePing ps)) w makeRes
         else if kind = ''tcp'' then runTCP (tm_Target task) (snd (decodeTCP ps)) w makeRes
         else if kind = ''traceroute''
           then runTraceroute (tm_Target task) (snd (decodeTraceroute ps)) w makeRes
         else if kind = ''dns'' then runDNS (tm_Target task) (snd (decodeDNS ps)) w makeRes
         else makeRes False (Some (Err (''unsupported check type '' @ quote (Type chk)))) None)"

text \<open>
  \<open>RunCheck\<close> starts one goroutine per check; each hands exactly one envelope to
  \<open>publish\<close>: the deadline envelope when the overall deadline has passed already, the
  result of \<open>runOne\<close> otherwise. The list is what is handed to the producer, by check
  index (the goroutines run concurrently, so the order on the bus is not fixed).
  \<open>world i\<close> is what the outside answers to check \<open>i\<close>.
\<close>

definition runGoroutine :: "(nat \<Rightarrow> World) \<Rightarrow> TaskMessage \<Rightarrow> nat \<times> CheckRequest \<Rightarrow> ResultEnvelope" where
  "runGoroutine world task ic =
     (let i = fst ic; chk = snd ic; w = world i in
      if w_ctxDone w
      then makeResTemplate (tm_ID task) i (Type chk) (tm_Target task) (w_start w)
             (w_durationMs w) False (Some (Err ''context deadline exceeded'')) None
      else runOne w task i chk)"

definition RunCheck :: "(nat \<Rightarrow> World) \<Rightarrow> TaskMessage \<Rightarrow> ResultEnvelope list" where
  "RunCheck world task = map (runGoroutine world task) (enumerate 0 (tm_Checks task))"

text \<open>
  \<open>Service.process\<close> of the agent on the value of a consumed message: the error it
  returns and the envelopes handed to the producer.
\<close>

definition agentProcess ::
  "JSONLib \<Rightarrow> (nat \<Rightarrow> World) \<Rightarrow> bytes \<Rightarrow> error option \<times> ResultEnvelope list" where
  "agentProcess lib world v =
     (case ParseTask lib v of
        Inl err \<Rightarrow> (Some err, [])
      | Inr task \<Rightarrow> (None, RunCheck world task))"

text \<open>
  The status range that \<open>runOne\<close> decodes from the parameters of a check, and whether the
  fields of the HTTP parameters other than the range decode.
\<close>

definition expectedRange :: "CheckRequest \<Rightarrow> int \<times> int" where
  "expectedRange c = hp_ExpectedStatusRange (snd (decodeHTTP (readParams (Params c))))"

text \<open>
  The records that \<open>runOne\<close> decodes from the parameters of a DNS check, and whether the
  loop of \<open>runDNS\<close> gets an answer for a record: the record is of a type the loop knows
  and the lookup for it returns without error.
\<close>

definition dnsRecords :: "CheckRequest \<Rightarrow> string list" where
  "dnsRecords c = dp_Records (snd (decodeDNS (readParams (Params c))))"

definition recordAnswered :: "World \<Rightarrow> string \<Rightarrow> bool" where
  "recordAnswered w rr =
     (let u = ToUpper rr in
      if u = ''A'' \<or> u = ''AAAA'' then \<not> isl (w_lookupHost w)
      else if u = ''MX'' then \<not> isl (w_lookupMX w)
      else False)"

definition othersDecode :: "params \<Rightarrow> bool" where
  "othersDecode m \<longleftrightarrow>
     snd (decString (m ''scheme'')) \<and> snd (decString (m ''path''))
     \<and> snd (decHeaders (m ''headers'')) \<and> snd (decBool (m ''followRedirects''))
     \<and> snd (decInt (m ''maxBodyBytes''))"

text \<open>
  Concrete surroundings for the examples: a JSON library whose parsers fail, an outside
  world whose HTTP request is answered with the given status, whose ping exits with 1 and
  whose resolver finds nothing, and a task for example.com.
\<close>

definition exampleLib :: JSONLib where
  "exampleLib = \<lparr>unmarshalTask = (\<lambda>v. None), unmarshalHeaders = (\<lambda>s. None),
                  unmarshalStrings = (\<lambda>s. None)\<rparr>"

definition exampleWorld :: "int \<Rightarrow> World" where
  "exampleWorld status =
     \<lparr>w_http = HTTPResponse status ''https://example.com/'' 12,
      w_tcp = TCPConnected 3,
      w_lookupHost = Inl (Err ''no such host''),
      w_lookupMX = Inl (Err ''no such host''),
      w_parseIP = (\<lambda>ip. None),
      w_ping = \<lparr>co_command = ''/bin/ping -c 4 -i 1.000 example.com'', co_output = [],
                co_err = Some (ExitError 1 ''exit status 1'')\<rparr>,
      w_traceroute = \<lparr>co_command = ''/usr/bin/traceroute -n -m 30 example.com'',
                      co_output = [], co_err = None\<rparr>,
      w_hops = [], w_start = 5, w_durationMs = 12, w_ctxDone = False\<rparr>"

definition exampleTask :: "CheckRequest list \<Rightarrow> TaskMessage" where
  "exampleTask checks =
     \<lparr>tm_ID = ''0123456789abcdef'', tm_Target = ''example.com'', tm_TimeoutSeconds = 20,
      tm_ClientContext = \<lparr>cc_IP = ''203.0.113.57'', cc_ASN = 0, cc_Region = ''EU'',
                           cc_Continent = [], cc_UserAgent = ''curl''\<rparr>,
      tm_Checks = checks, tm_Metadata = [(''origin'', ''api''), (''region'', ''EU'')]\<rparr>"

section \<open>Agent: properties\<close>

lemma digitOf_digitChar: "d < 10 \<Longrightarrow> digitOf (digitChar d) = Some d"
proof -
  assume "d < 10"
  then have "d \<in> {0, 1, 2, 3, 4, 5, 6, 7, 8, 9}" by auto
  then show ?thesis
    by (auto simp: digitOf_def digitChar_def)
qed

lemma showNat_digits: "c \<in> set (showNat n) \<Longrightarrow> digitOf c \<noteq> None"
proof (induction n arbitrary: c rule: showNat.induct)
  case (1 n)
  have m: "n mod 10 < 10" by simp
  show ?case
  proof (cases "n < 10")
    case True
    with "1.prems" have "c = digitChar n" by (subst (asm) showNat.simps) simp
    with True show ?thesis by (simp add: digitOf_digitChar)
  next
    case False
    with "1.prems" have "c \<in> set (showNat (n div 10)) \<or> c = digitChar (n mod 10)"
      by (subst (asm) showNat.simps) auto
    then show ?thesis
    proof
      assume "c \<in> set (showNat (n div 10))"
      with False show ?thesis using "1.IH" by blast
    next
      assume "c = digitChar (n mod 10)"
      then show ?thesis by (simp add: digitOf_digitChar [OF m])
    qed
  qed
qed

lemma showNat_nonempty: "showNat n \<noteq> []"
  by (subst showNat.simps) simp

lemma parseDigits_append:
  "parseDigits acc (xs @ ys) = (case parseDigits acc xs of None \<Rightarrow> None | Some a \<Rightarrow> parseDigits a ys)"
  by (induction xs arbitrary: acc) (auto split: option.splits)

lemma parseDigits_showNat: "parseDigits 0 (showNat n) = Some n"
proof (induction n rule: showNat.induct)
  case (1 n)
  show ?case
  proof (cases "n < 10")
    case True
    then show ?thesis
      by (subst showNat.simps) (simp add: digitOf_digitChar)
  next
    case False
    have m: "n mod 10 < 10" by simp
    from False 1 have "parseDigits 0 (showNat (n div 10)) = Some (n div 10)" by simp
    with False show ?thesis
      by (subst showNat.simps) (simp add: parseDigits_append digitOf_digitChar [OF m])
  qed
qed

lemma digitOf_sign: "digitOf CHR ''-'' = None" "digitOf CHR ''+'' = None" "digitOf CHR '','' = None"
  by (simp_all add: digitOf_def)

lemma digitOf_space: "isSpace c \<Longrightarrow> digitOf c = None"
  by (auto simp: isSpace_def digitOf_def)

lemma hd_showNat_digit: "digitOf (hd (showNat n)) \<noteq> None"
  using showNat_digits [of "hd (showNat n)" n] showNat_nonempty [of n]
  by simp

lemma Atoi_Itoa: "inInt64 v \<Longrightarrow> Atoi (Itoa v) = Inr v"
proof -
  assume r: "inInt64 v"
  show ?thesis
  proof (cases "v < 0")
    case True
    then have "Itoa v = CHR ''-'' # showNat (nat (- v))" by (simp add: Itoa_def)
    with True r show ?thesis
      by (simp add: Atoi_def Let_def showNat_nonempty parseDigits_showNat)
  next
    case False
    then have i: "Itoa v = showNat (nat v)" by (simp add: Itoa_def)
    from hd_showNat_digit [of "nat v"] digitOf_sign
    have "hd (showNat (nat v)) \<noteq> CHR ''-''" and "hd (showNat (nat v)) \<noteq> CHR ''+''"
      by auto
    with False r i show ?thesis
      by (simp add: Atoi_def Let_def showNat_nonempty parseDigits_showNat)
  qed
qed

lemma Itoa_chars: "c \<in> set (Itoa v) \<Longrightarrow> c = CHR ''-'' \<or> digitOf c \<noteq> None"
  using showNat_digits [of c "nat v"] showNat_digits [of c "nat (- v)"]
  by (auto simp: Itoa_def split: if_splits)

lemma Itoa_nonempty: "Itoa v \<noteq> []"
  by (simp add: Itoa_def showNat_nonempty)

lemma Itoa_no_space: "c \<in> set (Itoa v) \<Longrightarrow> \<not> isSpace c"
proof
  assume c: "c \<in> set (Itoa v)" and s: "isSpace c"
  from s have "digitOf c = None" by (rule digitOf_space)
  with Itoa_chars [OF c] have "c = CHR ''-''" by simp
  with s show False by (simp add: isSpace_def)
qed

lemma TrimSpace_id:
  "s \<noteq> [] \<Longrightarrow> \<not> isSpace (hd s) \<Longrightarrow> \<not> isSpace (last s) \<Longrightarrow> TrimSpace s = s"
proof -
  assume ne: "s \<noteq> []" and h: "\<not> isSpace (hd s)" and l: "\<not> isSpace (last s)"
  from ne h have a: "dropWhile isSpace s = s" by (cases s) auto
  from ne l have "\<not> isSpace (hd (rev s))" by (simp add: hd_rev)
  with ne have "dropWhile isSpace (rev s) = rev s" by (cases "rev s") auto
  with a show ?thesis by (simp add: TrimSpace_def)
qed

lemma TrimSpace_Itoa: "TrimSpace (Itoa v) = Itoa v"
proof (rule TrimSpace_id)
  show "Itoa v \<noteq> []" by (rule Itoa_nonempty)
  have "hd (Itoa v) \<in> set (Itoa v)" and "last (Itoa v) \<in> set (Itoa v)"
    using Itoa_nonempty by simp_all
  then show "\<not> isSpace (hd (Itoa v))" and "\<not> isSpace (last (Itoa v))"
    using Itoa_no_space by blast+
qed

lemma Split_no_sep: "sep \<notin> set xs \<Longrightarrow> Split xs sep = [xs]"
  by (induction xs) auto

lemma Split_at_sep: "sep \<notin> set xs \<Longrightarrow> Split (xs @ sep # ys) sep = xs # Split ys sep"
  by (induction xs) auto

lemma comma_notin_Itoa: "CHR '','' \<notin> set (Itoa v)"
  using Itoa_chars [of "CHR '',''" v] digitOf_sign by auto

lemma parseRange2Int_fmtRange:
  assumes "inInt64 a" and "inInt64 b"
  shows "parseRange2Int (fmtRange a b) = Inr (a, b)"
proof -
  let ?s = "fmtRange a b"
  have ne: "?s \<noteq> []" by (simp add: fmtRange_def)
  have "hd ?s = CHR ''[''" and "last ?s = CHR '']''" by (simp_all add: fmtRange_def)
  then have "\<not> isSpace (hd ?s)" and "\<not> isSpace (last ?s)" by (simp_all add: isSpace_def)
  with ne have t: "TrimSpace ?s = ?s" by (rule TrimSpace_id)
  have p: "TrimPrefix ?s ''['' = (Itoa a @ CHR '','' # Itoa b) @ '']''"
    by (simp add: TrimPrefix_def fmtRange_def)
  have q: "TrimSuffix ((Itoa a @ CHR '','' # Itoa b) @ '']'') '']'' = Itoa a @ CHR '','' # Itoa b"
    unfolding TrimSuffix_def by simp
  have sp: "Split (Itoa a @ CHR '','' # Itoa b) CHR '','' = [Itoa a, Itoa b]"
    using Split_at_sep [OF comma_notin_Itoa, of a "Itoa b"] Split_no_sep [OF comma_notin_Itoa, of b]
    by simp
  have "parseRange2Int ?s =
        (case Atoi (TrimSpace (Itoa a)) of Inl e \<Rightarrow> Inl e
         | Inr x \<Rightarrow> (case Atoi (TrimSpace (Itoa b)) of Inl e \<Rightarrow> Inl e | Inr y \<Rightarrow> Inr (x, y)))"
    unfolding parseRange2Int_def t p q sp Let_def by (simp cong: sum.case_cong)
  then show ?thesis
    by (simp add: TrimSpace_Itoa Atoi_Itoa assms)
qed

text \<open>Scenario 3 of the specification: the string form \<open>[200,299]\<close>.\<close>

lemma parseRange2Int_example: "parseRange2Int ''[200,299]'' = Inr (200, 299)"
  by (simp add: parseRange2Int_def TrimSpace_def TrimPrefix_def TrimSuffix_def isSpace_def
      Atoi_def digitOf_def inInt64_def Let_def)

lemma decodeHTTP_ok:
  "fst (decodeHTTP m) = None \<longleftrightarrow> othersDecode m \<and> snd (decRange (m ''expectedStatusRange''))"
  by (auto simp: decodeHTTP_def decodeError_def othersDecode_def)

lemma decInt_inInt64: "inInt64 (fst (decInt v))"
  by (auto simp: decInt_def inInt64_def split: option.splits jvalue.splits)

lemma decInt_JNumber: "inInt64 n \<Longrightarrow> decInt (Some (JNumber n)) = (n, True)"
  by (simp add: decInt_def)

lemma decRange_rangeValue:
  "inInt64 a \<Longrightarrow> inInt64 b \<Longrightarrow> decRange (Some (rangeValue a b)) = ((a, b), True)"
  by (simp add: decRange_def rangeValue_def elemAt_def decInt_JNumber)

lemma decHeaders_roundtrip:
  "decHeaders (Some (JObject (map (\<lambda>(k, v). (k, JString v)) hs))) = (hs, True)"
proof -
  have "map (\<lambda>(k, x). (k, fst (decString (Some x)))) (map (\<lambda>(k, v). (k, JString v)) hs) = hs"
    by (induction hs) (auto simp: decString_def)
  moreover have "list_all (\<lambda>(k, x). snd (decString (Some x))) (map (\<lambda>(k, v). (k, JString v)) hs)"
    by (induction hs) (auto simp: decString_def)
  ultimately show ?thesis by (simp add: decHeaders_def)
qed

lemma decodeHTTP_mustToMap:
  assumes "inInt64 (fst (hp_ExpectedStatusRange hp))" and "inInt64 (snd (hp_ExpectedStatusRange hp))"
    and "inInt64 (hp_MaxBodyBytes hp)"
  shows "decodeHTTP (mustToMapHTTP hp) = (None, hp)"
proof -
  let ?m = "mustToMapHTTP hp"
  have s: "?m ''scheme'' = Some (JString (hp_Scheme hp))"
    and p: "?m ''path'' = Some (JString (hp_Path hp))"
    and f: "?m ''followRedirects'' = Some (JBool (hp_FollowRedirects hp))"
    and b: "?m ''maxBodyBytes'' = Some (JNumber (hp_MaxBodyBytes hp))"
    and r: "?m ''expectedStatusRange''
            = Some (rangeValue (fst (hp_ExpectedStatusRange hp)) (snd (hp_ExpectedStatusRange hp)))"
    by (simp_all add: mustToMapHTTP_def rangeValue_def)
  have h: "decHeaders (?m ''headers'') = (hp_Headers hp, True)"
  proof (cases "hp_Headers hp = []")
    case True
    then show ?thesis by (simp add: mustToMapHTTP_def decHeaders_def)
  next
    case False
    then have "?m ''headers'' = Some (JObject (map (\<lambda>(k, v). (k, JString v)) (hp_Headers hp)))"
      by (simp add: mustToMapHTTP_def)
    then show ?thesis by (simp add: decHeaders_roundtrip)
  qed
  show ?thesis
    unfolding decodeHTTP_def s p f b r h
    by (simp add: decString_def decBool_def decInt_JNumber decRange_rangeValue assms decodeError_def)
qed

lemma normalizeHeaders_other_key:
  "k \<noteq> ''headers'' \<Longrightarrow> normalizeHeaders lib m k = m k"
  by (auto simp: normalizeHeaders_def Let_def split: option.splits jvalue.splits)

lemma normalizeHeaders_headers_upd:
  "k \<noteq> ''headers'' \<Longrightarrow> normalizeHeaders lib (m(k := v)) ''headers'' = normalizeHeaders lib m ''headers''"
  by (auto simp: normalizeHeaders_def Let_def split: option.splits jvalue.splits)

lemma othersDecode_range_upd:
  "othersDecode (normalizeHeaders lib (m(''expectedStatusRange'' := v)))
   = othersDecode (normalizeHeaders lib m)"
  by (simp add: othersDecode_def normalizeHeaders_other_key normalizeHeaders_headers_upd)


lemma decRange_inInt64:
  "inInt64 (fst (fst (decRange v))) \<and> inInt64 (snd (fst (decRange v)))"
proof -
  have z: "inInt64 0" by (simp add: inInt64_def)
  show ?thesis
    by (auto simp: decRange_def decInt_inInt64 z split: option.splits jvalue.splits)
qed

lemma httpDefaults_inInt64:
  assumes "hp = snd (decodeHTTP m)"
  shows "inInt64 (fst (hp_ExpectedStatusRange (httpDefaults hp)))
         \<and> inInt64 (snd (hp_ExpectedStatusRange (httpDefaults hp)))
         \<and> inInt64 (hp_MaxBodyBytes (httpDefaults hp))"
proof -
  have "inInt64 200" and "inInt64 299" by (simp_all add: inInt64_def)
  with assms decRange_inInt64 [of "m ''expectedStatusRange''"] decInt_inInt64 [of "m ''maxBodyBytes''"]
  show ?thesis
    by (auto simp: httpDefaults_def decodeHTTP_def)
qed

lemma expectedRange_normalized:
  "expectedRange (c\<lparr>Params := Some (mustToMapHTTP (httpDefaults (snd (decodeHTTP m))))\<rparr>)
   = hp_ExpectedStatusRange (httpDefaults (snd (decodeHTTP m)))"
proof -
  from httpDefaults_inInt64 [OF refl, of m]
  have "decodeHTTP (mustToMapHTTP (httpDefaults (snd (decodeHTTP m))))
        = (None, httpDefaults (snd (decodeHTTP m)))"
    by (intro decodeHTTP_mustToMap) simp_all
  then show ?thesis
    by (simp add: expectedRange_def readParams_def)
qed

lemma normalize_http:
  assumes "ToLower (Type c) = ''http''"
    and "normalizeRange (Params c) = Inr ps1"
    and "othersDecode (normalizeHeaders lib ps1)"
    and "snd (decRange (ps1 ''expectedStatusRange''))"
  shows "normalizeCheckParams lib c
         = Inr (c\<lparr>Params := Some (mustToMapHTTP
                                     (httpDefaults (snd (decodeHTTP (normalizeHeaders lib ps1)))))\<rparr>)"
proof -
  from assms(3,4) have "fst (decodeHTTP (normalizeHeaders lib ps1)) = None"
    by (simp add: decodeHTTP_ok normalizeHeaders_other_key)
  then obtain hp where "decodeHTTP (normalizeHeaders lib ps1) = (None, hp)"
    by (cases "decodeHTTP (normalizeHeaders lib ps1)") simp
  with assms(1,2) show ?thesis
    by (simp add: normalizeCheckParams_def Let_def)
qed

lemma normalize_http_others:
  assumes "ToLower (Type c) = ''http''"
    and "normalizeCheckParams lib (c\<lparr>Params := Some (ps(''expectedStatusRange'' := None))\<rparr>) = Inr c0"
  shows "othersDecode (normalizeHeaders lib ps)"
proof -
  let ?ps1 = "(ps(''expectedStatusRange'' := None))(''expectedStatusRange'' \<mapsto> rangeValue 200 299)"
  have nr: "normalizeRange (Some (ps(''expectedStatusRange'' := None))) = Inr ?ps1"
    by (simp add: normalizeRange_def readParams_def writeParam_def)
  from assms nr have "fst (decodeHTTP (normalizeHeaders lib ?ps1)) = None"
    by (auto simp: normalizeCheckParams_def Let_def split: prod.splits option.splits)
  then have "othersDecode (normalizeHeaders lib ?ps1)"
    by (simp add: decodeHTTP_ok)
  then show ?thesis
    by (simp add: othersDecode_range_upd)
qed

lemma range_of_normalized:
  assumes "inInt64 a" and "inInt64 b"
  shows "hp_ExpectedStatusRange
           (httpDefaults (snd (decodeHTTP (normalizeHeaders lib
              (ps(''expectedStatusRange'' \<mapsto> rangeValue a b))))))
         = (if a = 0 \<and> b = 0 then (200, 299) else (a, b))"
  using assms
  by (simp add: httpDefaults_def decodeHTTP_def normalizeHeaders_other_key decRange_rangeValue)

lemma normalize_http_range:
  assumes http: "ToLower (Type c) = ''http''"
    and nr: "normalizeRange (Params c) = Inr (ps(''expectedStatusRange'' \<mapsto> rangeValue a b))"
    and others: "othersDecode (normalizeHeaders lib ps)"
    and a: "inInt64 a" and b: "inInt64 b"
  shows "\<exists>c1. normalizeCheckParams lib c = Inr c1
           \<and> Type c1 = Type c
           \<and> expectedRange c1 = (if a = 0 \<and> b = 0 then (200, 299) else (a, b))"
proof -
  let ?ps1 = "ps(''expectedStatusRange'' \<mapsto> rangeValue a b)"
  let ?c1 = "c\<lparr>Params := Some (mustToMapHTTP (httpDefaults (snd (decodeHTTP (normalizeHeaders lib ?ps1)))))\<rparr>"
  from others have o: "othersDecode (normalizeHeaders lib ?ps1)"
    by (simp add: othersDecode_range_upd)
  from a b have r: "snd (decRange (?ps1 ''expectedStatusRange''))"
    by (simp add: decRange_rangeValue)
  from normalize_http [OF http nr o r] have n: "normalizeCheckParams lib c = Inr ?c1" .
  have "expectedRange ?c1 = (if a = 0 \<and> b = 0 then (200, 299) else (a, b))"
    by (simp only: expectedRange_normalized range_of_normalized [OF a b])
  with n show ?thesis by auto
qed

lemma runOne_http_ok:
  assumes "ToLower (Type c) = ''http''" and "w_http w = HTTPResponse st u l"
  shows "re_OK (runOne w task idx c)
         \<longleftrightarrow> fst (expectedRange c) \<le> st \<and> st \<le> snd (expectedRange c)"
  using assms
  by (simp add: runOne_def runHTTP_def makeResTemplate_def expectedRange_def Let_def)


text \<open>
  What holds for an HTTP check that carries a parameter map: it is accepted with
  \<open>expectedStatusRange\<close> absent, given as the string \<open>[a,b]\<close> or given as a
  two-element array (provided the check is accepted without the range, that is, its
  other parameters decode). The range the probe then uses is \<open>[200,299]\<close> when absent
  and \<open>[a,b]\<close> otherwise (\<open>[0,0]\<close> counts as unset and becomes \<open>[200,299]\<close>), and on
  a response the probe reports ok exactly when the status code lies within that inclusive
  range.
\<close>

lemma http_range_accepted:
  assumes http: "ToLower (Type c) = ''http''"
    and absent: "normalizeCheckParams lib
                   (c\<lparr>Params := Some (ps(''expectedStatusRange'' := None))\<rparr>) = Inr c0"
    and a: "inInt64 a" and b: "inInt64 b"
    and resp: "w_http w = HTTPResponse st u l"
  shows "expectedRange c0 = (200, 299)
     \<and> (re_OK (runOne w task idx c0) \<longleftrightarrow> 200 \<le> st \<and> st \<le> 299)
     \<and> (\<exists>c1. normalizeCheckParams lib
                 (c\<lparr>Params := Some (ps(''expectedStatusRange'' \<mapsto> JString (fmtRange a b)))\<rparr>)
               = Inr c1
            \<and> expectedRange c1 = (if a = 0 \<and> b = 0 then (200, 299) else (a, b))
            \<and> (re_OK (runOne w task idx c1)
                 \<longleftrightarrow> fst (expectedRange c1) \<le> st \<and> st \<le> snd (expectedRange c1)))
     \<and> (\<exists>c2. normalizeCheckParams lib
                 (c\<lparr>Params := Some (ps(''expectedStatusRange'' \<mapsto> JArray [JNumber a, JNumber b]))\<rparr>)
               = Inr c2
            \<and> expectedRange c2 = (if a = 0 \<and> b = 0 then (200, 299) else (a, b))
            \<and> (re_OK (runOne w task idx c2)
                 \<longleftrightarrow> fst (expectedRange c2) \<le> st \<and> st \<le> snd (expectedRange c2)))"
proof -
  let ?k = "''expectedStatusRange''"
  have others: "othersDecode (normalizeHeaders lib ps)"
    using http absent by (rule normalize_http_others)
  have o: "othersDecode (normalizeHeaders lib (ps(?k := v)))" for v
    using others by (simp add: othersDecode_range_upd)
  have d: "inInt64 200" "inInt64 299" by (simp_all add: inInt64_def)
  \<comment> \<open>absent\<close>
  let ?c = "c\<lparr>Params := Some (ps(?k := None))\<rparr>"
  have "normalizeRange (Params ?c) = Inr ((ps(?k := None))(?k \<mapsto> rangeValue 200 299))"
    by (simp add: normalizeRange_def readParams_def writeParam_def)
  from normalize_http_range [OF _ this o d] http absent
  have r0: "expectedRange c0 = (200, 299)" and t0: "Type c0 = Type c"
    by auto
  from t0 http have "ToLower (Type c0) = ''http''" by simp
  from runOne_http_ok [OF this resp, of task idx] r0
  have k0: "re_OK (runOne w task idx c0) \<longleftrightarrow> 200 \<le> st \<and> st \<le> 299" by simp
  \<comment> \<open>the string form\<close>
  let ?cs = "c\<lparr>Params := Some (ps(?k \<mapsto> JString (fmtRange a b)))\<rparr>"
  have "normalizeRange (Params ?cs)
        = Inr ((ps(?k \<mapsto> JString (fmtRange a b)))(?k \<mapsto> rangeValue a b))"
    by (simp add: normalizeRange_def readParams_def writeParam_def parseRange2Int_fmtRange [OF a b])
  from normalize_http_range [OF _ this o a b] http
  obtain c1 where n1: "normalizeCheckParams lib ?cs = Inr c1" and t1: "Type c1 = Type c"
    and r1: "expectedRange c1 = (if a = 0 \<and> b = 0 then (200, 299) else (a, b))"
    by auto
  from t1 http have "ToLower (Type c1) = ''http''" by simp
  note k1 = runOne_http_ok [OF this resp, of task idx]
  \<comment> \<open>the array form\<close>
  let ?ca = "c\<lparr>Params := Some (ps(?k \<mapsto> JArray [JNumber a, JNumber b]))\<rparr>"
  have "normalizeRange (Params ?ca)
        = Inr ((ps(?k \<mapsto> JArray [JNumber a, JNumber b]))(?k \<mapsto> rangeValue a b))"
    by (simp add: normalizeRange_def readParams_def writeParam_def toInt_def)
  from normalize_http_range [OF _ this o a b] http
  obtain c2 where n2: "normalizeCheckParams lib ?ca = Inr c2" and t2: "Type c2 = Type c"
    and r2: "expectedRange c2 = (if a = 0 \<and> b = 0 then (200, 299) else (a, b))"
    by auto
  from t2 http have "ToLower (Type c2) = ''http''" by simp
  note k2 = runOne_http_ok [OF this resp, of task idx]
  from r0 k0 n1 r1 k1 n2 r2 k2 show ?thesis by blast
qed

lemmas agent_eval_defs =
  normalizeCheckParams_def normalizeRange_def normalizeHeaders_def readParams_def writeParam_def
  decodeHTTP_def decodeError_def decString_def decBool_def decInt_def decHeaders_def decRange_def
  elemAt_def rangeValue_def httpDefaults_def mustToMapHTTP_def inInt64_def
  ToLower_def toLowerByte_def

lemma http_range_accepted_example:
  "re_OK (runOne (exampleWorld 204) (exampleTask []) 0
            (projr (normalizeCheckParams exampleLib
                      \<lparr>Type = ''HTTP'',
                       Params = Some [''expectedStatusRange'' \<mapsto> JString ''[200,299]'']\<rparr>)))
   \<and> expectedRange (projr (normalizeCheckParams exampleLib
                      \<lparr>Type = ''HTTP'', Params = Some Map.empty\<rparr>)) = (200, 299)"
proof -
  let ?c = "\<lparr>Type = ''HTTP'', Params = Some Map.empty\<rparr>"
  let ?n = "normalizeCheckParams exampleLib ?c"
  let ?cs = "\<lparr>Type = ''HTTP'', Params = Some [''expectedStatusRange'' \<mapsto> JString ''[200,299]'']\<rparr>"
  have http: "ToLower (Type ?c) = ''http''"
    by (simp add: ToLower_def toLowerByte_def)
  have absent: "normalizeCheckParams exampleLib
                  (?c\<lparr>Params := Some (Map.empty(''expectedStatusRange'' := None))\<rparr>)
                = Inr (projr ?n)"
    by (simp add: agent_eval_defs Let_def)
  have a: "inInt64 200" and b: "inInt64 299" by (simp_all add: inInt64_def)
  have resp: "w_http (exampleWorld 204) = HTTPResponse 204 ''https://example.com/'' 12"
    by (simp add: exampleWorld_def)
  have f: "fmtRange 200 299 = ''[200,299]''"
    by (simp add: fmtRange_def Itoa_def showNat.simps digitChar_def)
  have e: "?c\<lparr>Params := Some (Map.empty(''expectedStatusRange'' \<mapsto> JString ''[200,299]''))\<rparr> = ?cs"
    by simp
  from http_range_accepted [where task = "exampleTask []" and idx = 0, OF http absent a b resp]
  show ?thesis
    unfolding f e by auto
qed

text \<open>
  C8. For every HTTP check the agent accepts \<open>expectedStatusRange\<close> as a string, as an
  array or absent, the absent case becoming \<open>[200,299]\<close>. For a check without a
  parameter map (\<open>{"type":"http"}\<close>, or \<open>params\<close> null) the range is absent, and
  \<open>normalizeCheckParams\<close> stores the default range into the nil map: the agent panics,
  and no envelope is published for the task.
\<close>

theorem http_check_without_params_panics:
  "normalizeCheckParams lib \<lparr>Type = ''http'', Params = None\<rparr>
     = Inl (Panic ''assignment to entry in nil map'')
   \<and> agentProcess
        (exampleLib\<lparr>unmarshalTask :=
           (\<lambda>v. Some (exampleTask [\<lparr>Type = ''http'', Params = None\<rparr>]))\<rparr>)
        world v
     = (Some (Panic ''assignment to entry in nil map''), [])"
  by (simp add: agentProcess_def ParseTask_def exampleLib_def exampleTask_def
                normalizeCheckParams_def normalizeRange_def readParams_def writeParam_def
                ToLower_def toLowerByte_def Let_def)

lemma runHTTP_error_field:
  "re_OK (runHTTP target p w (makeResTemplate tid idx typ tgt st dur))
   \<longrightarrow> re_Error (runHTTP target p w (makeResTemplate tid idx typ tgt st dur)) = []"
  by (simp add: runHTTP_def makeResTemplate_def Let_def split: http_outcome.splits)

lemma runTCP_error_field:
  "re_OK (runTCP target p w (makeResTemplate tid idx typ tgt st dur))
   \<longrightarrow> re_Error (runTCP target p w (makeResTemplate tid idx typ tgt st dur)) = []"
  by (simp add: runTCP_def makeResTemplate_def Let_def split: tcp_outcome.splits)

lemma runPing_error_field:
  "re_OK (runPing target p w (makeResTemplate tid idx typ tgt st dur))
   \<longrightarrow> re_Error (runPing target p w (makeResTemplate tid idx typ tgt st dur)) = []"
  by (simp add: runPing_def makeResTemplate_def Let_def split: option.splits)

lemma runTraceroute_error_field:
  "re_OK (runTraceroute target p w (makeResTemplate tid idx typ tgt st dur))
   \<longrightarrow> re_Error (runTraceroute target p w (makeResTemplate tid idx typ tgt st dur)) = []"
  by (simp add: runTraceroute_def makeResTemplate_def Let_def split: option.splits)

lemma runDNS_error_field:
  "re_Error (runDNS target p w (makeResTemplate tid idx typ tgt st dur)) = []"
  by (simp add: runDNS_def makeResTemplate_def Let_def)

lemma runOne_ok_no_error:
  "re_OK (runOne w task idx chk) \<Longrightarrow> re_Error (runOne w task idx chk) = []"
  unfolding runOne_def Let_def
  using runHTTP_error_field runTCP_error_field runPing_error_field runTraceroute_error_field
        runDNS_error_field
  by (auto simp: makeResTemplate_def split: if_splits)

text \<open>
  C9 as stated fails: an HTTP response with status 500 against the range \<open>[200,299]\<close> is
  reported with ok false and no error text.
\<close>

theorem http_status_failure_without_error:
  "\<not> re_OK (runOne (exampleWorld 500) (exampleTask []) 0
              \<lparr>Type = ''http'',
               Params = Some [''expectedStatusRange'' \<mapsto> JArray [JNumber 200, JNumber 299]]\<rparr>)
   \<and> re_Error (runOne (exampleWorld 500) (exampleTask []) 0
              \<lparr>Type = ''http'',
               Params = Some [''expectedStatusRange'' \<mapsto> JArray [JNumber 200, JNumber 299]]\<rparr>) = []"
  by (simp add: runOne_def runHTTP_def makeResTemplate_def exampleWorld_def exampleTask_def
                agent_eval_defs Let_def)

lemma dnsRecord_haveError:
  "snd (dnsRecord w rr acc) \<longleftrightarrow> snd acc \<or> \<not> recordAnswered w rr"
  by (auto simp: dnsRecord_def recordAnswered_def Let_def split: sum.splits)

lemma dnsLoop_haveError:
  "snd (foldl (\<lambda>acc rr. dnsRecord w rr acc) acc rs)
   \<longleftrightarrow> snd acc \<or> \<not> list_all (recordAnswered w) rs"
proof (induction rs arbitrary: acc)
  case Nil
  then show ?case by simp
next
  case (Cons rr rs)
  have "snd (foldl (\<lambda>acc rr. dnsRecord w rr acc) (dnsRecord w rr acc) rs)
        \<longleftrightarrow> snd (dnsRecord w rr acc) \<or> \<not> list_all (recordAnswered w) rs"
    by (rule Cons.IH)
  then show ?case
    by (simp add: dnsRecord_haveError)
qed

lemma runDNS_ok:
  "re_OK (runDNS target p w (makeResTemplate tid idx typ tgt st dur))
   \<longleftrightarrow> list_all (recordAnswered w) (dp_Records p)"
  by (simp add: runDNS_def makeResTemplate_def Let_def dnsLoop_haveError)

lemma runHTTP_ok:
  "w_http w = HTTPResponse status u l \<Longrightarrow>
   re_OK (runHTTP target p w (makeResTemplate tid idx typ tgt st dur))
   \<longleftrightarrow> fst (hp_ExpectedStatusRange p) \<le> status \<and> status \<le> snd (hp_ExpectedStatusRange p)"
  by (simp add: runHTTP_def makeResTemplate_def Let_def)

text \<open>
  C9, amended. For every probe run the envelope has no error text when ok is true. When
  the probe got an error (HTTP request or transport error, TCP dial error, failed ping or
  traceroute command, unsupported kind) ok is false and the error text is the message of
  that error. An HTTP response never carries an error text, and ok says whether its status
  lies in the expected range: a status outside the range gives ok false without an error
  text. A DNS run never carries an error text, and ok says whether every requested record
  was answered: a run with a failed record gives ok false without an error text, the
  record errors being in the payload.
\<close>

theorem envelope_error_field:
  "(let r = runOne w task idx chk; kind = ToLower (Type chk) in
      (re_OK r \<longrightarrow> re_Error r = [])
    \<and> (kind = ''http'' \<and> w_http w = HTTPRequestError e \<longrightarrow> \<not> re_OK r \<and> re_Error r = Error e)
    \<and> (kind = ''http'' \<and> w_http w = HTTPDoError e \<longrightarrow> \<not> re_OK r \<and> re_Error r = Error e)
    \<and> (kind = ''http'' \<and> w_http w = HTTPResponse st u l \<longrightarrow> re_Error r = [])
    \<and> (kind = ''tcp'' \<and> w_tcp w = TCPDialError e \<longrightarrow> \<not> re_OK r \<and> re_Error r = Error e)
    \<and> (kind = ''ping'' \<and> co_err (w_ping w) = Some ce
          \<longrightarrow> \<not> re_OK r \<and> re_Error r = Error (cmdError ce))
    \<and> (kind = ''traceroute'' \<and> co_err (w_traceroute w) = Some ce
          \<longrightarrow> \<not> re_OK r \<and> re_Error r = Error (cmdError ce))
    \<and> (kind = ''dns'' \<longrightarrow> re_Error r = [])
    \<and> (kind \<noteq> ''http'' \<and> kind \<noteq> ''ping'' \<and> kind \<noteq> ''tcp'' \<and> kind \<noteq> ''traceroute''
          \<and> kind \<noteq> ''dns''
          \<longrightarrow> \<not> re_OK r \<and> re_Error r = ''unsupported check type '' @ quote (Type chk))
    \<and> (kind = ''http'' \<and> w_http w = HTTPResponse st u l
          \<longrightarrow> (re_OK r \<longleftrightarrow> fst (expectedRange chk) \<le> st \<and> st \<le> snd (expectedRange chk)))
    \<and> (kind = ''http'' \<and> w_http w = HTTPResponse st u l
          \<and> (st < fst (expectedRange chk) \<or> snd (expectedRange chk) < st)
          \<longrightarrow> \<not> re_OK r \<and> re_Error r = [])
    \<and> (kind = ''dns'' \<longrightarrow> (re_OK r \<longleftrightarrow> list_all (recordAnswered w) (dnsRecords chk)))
    \<and> (kind = ''dns'' \<and> rr \<in> set (dnsRecords chk) \<and> \<not> recordAnswered w rr
          \<longrightarrow> \<not> re_OK r \<and> re_Error r = []))"
proof -
  have a: "re_OK (runOne w task idx chk) \<longrightarrow> re_Error (runOne w task idx chk) = []"
    using runOne_ok_no_error by blast
  have h1: "ToLower (Type chk) = ''http'' \<and> w_http w = HTTPRequestError e
            \<longrightarrow> \<not> re_OK (runOne w task idx chk) \<and> re_Error (runOne w task idx chk) = Error e"
    by (simp add: runOne_def runHTTP_def makeResTemplate_def Let_def)
  have h2: "ToLower (Type chk) = ''http'' \<and> w_http w = HTTPDoError e
            \<longrightarrow> \<not> re_OK (runOne w task idx chk) \<and> re_Error (runOne w task idx chk) = Error e"
    by (simp add: runOne_def runHTTP_def makeResTemplate_def Let_def)
  have h3: "ToLower (Type chk) = ''http'' \<and> w_http w = HTTPResponse st u l
            \<longrightarrow> re_Error (runOne w task idx chk) = []"
    by (simp add: runOne_def runHTTP_def makeResTemplate_def Let_def)
  have t: "ToLower (Type chk) = ''tcp'' \<and> w_tcp w = TCPDialError e
            \<longrightarrow> \<not> re_OK (runOne w task idx chk) \<and> re_Error (runOne w task idx chk) = Error e"
    by (simp add: runOne_def runTCP_def makeResTemplate_def Let_def)
  have p: "ToLower (Type chk) = ''ping'' \<and> co_err (w_ping w) = Some ce
            \<longrightarrow> \<not> re_OK (runOne w task idx chk)
                \<and> re_Error (runOne w task idx chk) = Error (cmdError ce)"
    by (simp add: runOne_def runPing_def makeResTemplate_def Let_def)
  have tr: "ToLower (Type chk) = ''traceroute'' \<and> co_err (w_traceroute w) = Some ce
            \<longrightarrow> \<not> re_OK (runOne w task idx chk)
                \<and> re_Error (runOne w task idx chk) = Error (cmdError ce)"
    by (simp add: runOne_def runTraceroute_def makeResTemplate_def Let_def)
  have d: "ToLower (Type chk) = ''dns'' \<longrightarrow> re_Error (runOne w task idx chk) = []"
    by (simp add: runOne_def runDNS_error_field Let_def)
  have u: "ToLower (Type chk) \<noteq> ''http'' \<and> ToLower (Type chk) \<noteq> ''ping''
           \<and> ToLower (Type chk) \<noteq> ''tcp'' \<and> ToLower (Type chk) \<noteq> ''traceroute''
           \<and> ToLower (Type chk) \<noteq> ''dns''
           \<longrightarrow> \<not> re_OK (runOne w task idx chk)
               \<and> re_Error (runOne w task idx chk) = ''unsupported check type '' @ quote (Type chk)"
    by (simp add: runOne_def makeResTemplate_def Let_def)
  have h4: "ToLower (Type chk) = ''http'' \<and> w_http w = HTTPResponse st u l
            \<longrightarrow> (re_OK (runOne w task idx chk)
                  \<longleftrightarrow> fst (expectedRange chk) \<le> st \<and> st \<le> snd (expectedRange chk))"
    by (simp add: runOne_def runHTTP_ok expectedRange_def Let_def)
  from h3 h4 have h5: "ToLower (Type chk) = ''http'' \<and> w_http w = HTTPResponse st u l
          \<and> (st < fst (expectedRange chk) \<or> snd (expectedRange chk) < st)
          \<longrightarrow> \<not> re_OK (runOne w task idx chk) \<and> re_Error (runOne w task idx chk) = []"
    by auto
  have d2: "ToLower (Type chk) = ''dns''
            \<longrightarrow> (re_OK (runOne w task idx chk) \<longleftrightarrow> list_all (recordAnswered w) (dnsRecords chk))"
    by (simp add: runOne_def runDNS_ok dnsRecords_def Let_def)
  from d d2 have d3: "ToLower (Type chk) = ''dns'' \<and> rr \<in> set (dnsRecords chk)
          \<and> \<not> recordAnswered w rr
          \<longrightarrow> \<not> re_OK (runOne w task idx chk) \<and> re_Error (runOne w task idx chk) = []"
    by (auto simp: list_all_iff)
  from a h1 h2 h3 t p tr d u h4 h5 d2 d3 show ?thesis
    unfolding Let_def by blast
qed

theorem envelope_error_field_witness:
  "re_Error (runOne (exampleWorld 200) (exampleTask []) 0 \<lparr>Type = ''http'', Params = None\<rparr>) = []
   \<and> re_Error (runOne (exampleWorld 200) (exampleTask []) 1 \<lparr>Type = ''ping'', Params = None\<rparr>)
       = ''exit status 1''
   \<and> \<not> re_OK (runOne (exampleWorld 404) (exampleTask []) 2
         \<lparr>Type = ''http'',
          Params = Some [''expectedStatusRange'' \<mapsto> JArray [JNumber 200, JNumber 299]]\<rparr>)
   \<and> re_Error (runOne (exampleWorld 404) (exampleTask []) 2
         \<lparr>Type = ''http'',
          Params = Some [''expectedStatusRange'' \<mapsto> JArray [JNumber 200, JNumber 299]]\<rparr>) = []
   \<and> \<not> re_OK (runOne (exampleWorld 200) (exampleTask []) 3
         \<lparr>Type = ''dns'', Params = Some [''records'' \<mapsto> JArray [JString ''A'']]\<rparr>)
   \<and> re_Error (runOne (exampleWorld 200) (exampleTask []) 3
         \<lparr>Type = ''dns'', Params = Some [''records'' \<mapsto> JArray [JString ''A'']]\<rparr>) = []"
proof -
  let ?http = "\<lparr>Type = ''http'',
                Params = Some [''expectedStatusRange'' \<mapsto> JArray [JNumber 200, JNumber 299]]\<rparr>"
  let ?dns = "\<lparr>Type = ''dns'', Params = Some [''records'' \<mapsto> JArray [JString ''A'']]\<rparr>"
  have k1: "ToLower (Type \<lparr>Type = ''http'', Params = None\<rparr>) = ''http''"
    and k2: "ToLower (Type \<lparr>Type = ''ping'', Params = None\<rparr>) = ''ping''"
    and k3: "ToLower (Type ?http) = ''http''"
    and k4: "ToLower (Type ?dns) = ''dns''"
    by (simp_all add: ToLower_def toLowerByte_def)
  have w1: "w_http (exampleWorld 200) = HTTPResponse 200 ''https://example.com/'' 12"
    and w2: "co_err (w_ping (exampleWorld 200)) = Some (ExitError 1 ''exit status 1'')"
    and w3: "w_http (exampleWorld 404) = HTTPResponse 404 ''https://example.com/'' 12"
    by (simp_all add: exampleWorld_def)
  have range: "expectedRange ?http = (200, 299)"
    by (simp add: expectedRange_def agent_eval_defs)
  have recs: "dnsRecords ?dns = [''A'']"
    by (simp add: dnsRecords_def decodeDNS_def decStrings_def agent_eval_defs)
  have unanswered: "\<not> recordAnswered (exampleWorld 200) ''A''"
    by (simp add: recordAnswered_def exampleWorld_def ToUpper_def toUpperByte_def)
  from envelope_error_field [of "exampleWorld 200" "exampleTask []" 0
         "\<lparr>Type = ''http'', Params = None\<rparr>" _ 200 "''https://example.com/''" 12] k1 w1
  have a: "re_Error (runOne (exampleWorld 200) (exampleTask []) 0
                       \<lparr>Type = ''http'', Params = None\<rparr>) = []"
    unfolding Let_def by blast
  from envelope_error_field [of "exampleWorld 200" "exampleTask []" 1
         "\<lparr>Type = ''ping'', Params = None\<rparr>" _ _ _ _ "ExitError 1 ''exit status 1''"] k2 w2
  have b: "re_Error (runOne (exampleWorld 200) (exampleTask []) 1
                       \<lparr>Type = ''ping'', Params = None\<rparr>)
           = Error (cmdError (ExitError 1 ''exit status 1''))"
    unfolding Let_def by blast
  have out: "(404::int) < fst (expectedRange ?http) \<or> snd (expectedRange ?http) < 404"
    by (simp add: range)
  from envelope_error_field [of "exampleWorld 404" "exampleTask []" 2 ?http _ 404
         "''https://example.com/''" 12] k3 w3 out
  have c: "\<not> re_OK (runOne (exampleWorld 404) (exampleTask []) 2 ?http)
           \<and> re_Error (runOne (exampleWorld 404) (exampleTask []) 2 ?http) = []"
    unfolding Let_def by blast
  have mem: "''A'' \<in> set (dnsRecords ?dns)"
    by (simp add: recs)
  from envelope_error_field [of "exampleWorld 200" "exampleTask []" 3 ?dns _ _ _ _ _ "''A''"]
       k4 mem unanswered
  have d: "\<not> re_OK (runOne (exampleWorld 200) (exampleTask []) 3 ?dns)
           \<and> re_Error (runOne (exampleWorld 200) (exampleTask []) 3 ?dns) = []"
    unfolding Let_def by blast
  from a b c d show ?thesis by (simp add: cmdError_def)
qed

lemma RunCheck_length: "length (RunCheck world task) = length (tm_Checks task)"
  by (simp add: RunCheck_def)

lemma RunCheck_index:
  "i < length (tm_Checks task) \<Longrightarrow> re_CheckIndex (RunCheck world task ! i) = i"
  by (auto simp: RunCheck_def runGoroutine_def runOne_def makeResTemplate_def runHTTP_def
                 runTCP_def runPing_def runDNS_def runTraceroute_def Let_def nth_enumerate_eq
           split: http_outcome.splits tcp_outcome.splits option.splits)

lemma normalizeChecks_unknown_kind:
  assumes "c \<in> set cs"
    and "ToLower (Type c) \<noteq> ''http''" and "ToLower (Type c) \<noteq> ''ping''"
    and "ToLower (Type c) \<noteq> ''tcp''" and "ToLower (Type c) \<noteq> ''traceroute''"
    and "ToLower (Type c) \<noteq> ''dns''"
  shows "isl (normalizeChecks lib i cs)"
  using assms(1)
proof (induction cs arbitrary: i)
  case Nil
  then show ?case by simp
next
  case (Cons x xs)
  show ?case
  proof (cases "x = c")
    case True
    with assms(2-6) have "isl (normalizeCheckParams lib x)"
      by (simp add: normalizeCheckParams_def Let_def)
    then show ?thesis by (auto split: sum.splits)
  next
    case False
    with Cons.prems have "c \<in> set xs" by simp
    then have "\<And>j. isl (normalizeChecks lib j xs)" by (rule Cons.IH)
    then have "\<And>j y. normalizeChecks lib j xs \<noteq> Inr y" by (intro isl_neq_Inr)
    then show ?thesis by (auto split: sum.splits)
  qed
qed

lemma unknown_kind_no_envelopes:
  assumes "unmarshalTask lib v = Some t" and "c \<in> set (tm_Checks t)"
    and "ToLower (Type c) \<noteq> ''http''" and "ToLower (Type c) \<noteq> ''ping''"
    and "ToLower (Type c) \<noteq> ''tcp''" and "ToLower (Type c) \<noteq> ''traceroute''"
    and "ToLower (Type c) \<noteq> ''dns''"
  shows "snd (agentProcess lib world v) = []"
proof -
  from normalizeChecks_unknown_kind [OF assms(2-7)]
  have "\<And>y. normalizeChecks lib 0 (tm_Checks t) \<noteq> Inr y" by (intro isl_neq_Inr)
  with assms(1) show ?thesis
    by (auto simp: agentProcess_def ParseTask_def split: sum.splits)
qed

lemma parsed_task_one_envelope_per_check:
  "ParseTask lib v = Inr task \<Longrightarrow>
   agentProcess lib world v = (None, RunCheck world task)
   \<and> length (RunCheck world task) = length (tm_Checks task)"
  by (simp add: agentProcess_def RunCheck_length)

text \<open>The kind smtp as \<open>%q\<close> writes it: between double quotes, nothing to escape.\<close>

lemma quote_smtp: "quote ''smtp'' = [CHR 0x22, CHR ''s'', CHR ''m'', CHR ''t'', CHR ''p'', CHR 0x22]"
  by (simp add: quote_def quoteByte_def)

text \<open>
  C3. Every task with N checks yields N envelopes, a check of an unknown kind yielding the
  synthetic failure envelope. \<open>runOne\<close> builds that envelope, but a task never gets
  there: \<open>ParseTask\<close> rejects the whole task at the check of unknown kind, and
  \<open>process\<close> returns the error without running any check. On a task with an HTTP check
  and a check of kind smtp nothing is handed to the producer, whatever the outside world.
\<close>

theorem unknown_kind_suppresses_task:
  "agentProcess
     (exampleLib\<lparr>unmarshalTask :=
        (\<lambda>v. Some (exampleTask [\<lparr>Type = ''http'', Params = Some Map.empty\<rparr>,
                                 \<lparr>Type = ''smtp'', Params = Some Map.empty\<rparr>]))\<rparr>)
     world v
   = (Some (Err (''check 1 (smtp): unsupported check type '' @ quote ''smtp'')), [])
   \<and> re_Error (runOne w task 1 \<lparr>Type = ''smtp'', Params = Some Map.empty\<rparr>)
     = ''unsupported check type '' @ quote ''smtp''"
  by (simp add: agentProcess_def ParseTask_def exampleLib_def exampleTask_def agent_eval_defs
                Let_def Itoa_def showNat.simps digitChar_def runOne_def makeResTemplate_def)

end
